theory Spec2Isabelle
  imports Complex_Main "HOL-Library.Multiset"
begin

section \<open>Strings\<close>

text \<open>
  Python strings are modelled as \<open>string\<close> (lists of 8-bit characters); the model covers
  ASCII text.  \<open>lower\<close> is \<^verbatim>\<open>str.lower()\<close>, \<open>strip\<close> is \<^verbatim>\<open>str.strip()\<close>,
  \<open>strip_chars\<close> is \<^verbatim>\<open>str.strip(chars)\<close>, \<open>split_on\<close> is \<^verbatim>\<open>str.split(sep)\<close> for a
  one-character separator, \<open>starts_with\<close> is \<^verbatim>\<open>str.startswith\<close> and \<open>contains_str p s\<close>
  is the Python test \<^verbatim>\<open>p in s\<close>.
\<close>

definition lower_char :: "char \<Rightarrow> char" where
  "lower_char c =
     (case map_of (zip ''ABCDEFGHIJKLMNOPQRSTUVWXYZ'' ''abcdefghijklmnopqrstuvwxyz'') c of
        Some d \<Rightarrow> d
      | None \<Rightarrow> c)"

definition lower :: "string \<Rightarrow> string" where
  "lower s = map lower_char s"

definition is_space :: "char \<Rightarrow> bool" where
  "is_space c =
     (c \<in> set [CHR 0x20, CHR 0x09, CHR 0x0A, CHR 0x0B, CHR 0x0C, CHR 0x0D,
                CHR 0x1C, CHR 0x1D, CHR 0x1E, CHR 0x1F])"

definition is_digit :: "char \<Rightarrow> bool" where
  "is_digit c = (c \<in> set ''0123456789'')"

definition is_word :: "char \<Rightarrow> bool" where
  "is_word c =
     (c \<in> set ''abcdefghijklmnopqrstuvwxyzABCDEFGHIJKLMNOPQRSTUVWXYZ0123456789_'')"

definition strip_chars :: "(char \<Rightarrow> bool) \<Rightarrow> string \<Rightarrow> string" where
  "strip_chars p s = rev (dropWhile p (rev (dropWhile p s)))"

definition strip :: "string \<Rightarrow> string" where
  "strip s = strip_chars is_space s"

fun split_on :: "char \<Rightarrow> string \<Rightarrow> string list" where
  "split_on d [] = [[]]"
| "split_on d (c # cs) =
     (if c = d then [] # split_on d cs
      else (case split_on d cs of
              [] \<Rightarrow> [[c]]
            | w # ws \<Rightarrow> (c # w) # ws))"

definition starts_with :: "string \<Rightarrow> string \<Rightarrow> bool" where
  "starts_with s p = (take (length p) s = p)"

fun contains_str :: "string \<Rightarrow> string \<Rightarrow> bool" where
  "contains_str p [] = (p = [])"
| "contains_str p (c # cs) = (starts_with (c # cs) p \<or> contains_str p cs)"

definition digit_val :: "char \<Rightarrow> nat" where
  "digit_val c =
     (case map_of (zip ''0123456789'' [0, 1, 2, 3, 4, 5, 6, 7, 8, 9]) c of
        Some n \<Rightarrow> n
      | None \<Rightarrow> 0)"

definition digits_val :: "string \<Rightarrow> nat" where
  "digits_val s = foldl (\<lambda>a c. 10 * a + digit_val c) 0 s"

fun str_le :: "string \<Rightarrow> string \<Rightarrow> bool" where
  "str_le [] t = True"
| "str_le (a # s) [] = False"
| "str_le (a # s) (b # t) =
     (if a = b then str_le s t else (of_char a :: nat) < of_char b)"

section \<open>Errors\<close>

text \<open>
  Every failure of the Python code is a \<^verbatim>\<open>ValueError\<close> with a message, or an exception
  raised inside pandas or by \<^verbatim>\<open>float()\<close>.  The constructors name the message:
  \<open>ColumnNotFound\<close> is "Column '...' not found", \<open>NotNumeric\<close> is "Column '...' must be
  numeric for outlier detection", \<open>UnknownCondition\<close>, \<open>BetweenNeedsPair\<close>,
  \<open>UnknownFunction\<close> and \<open>UnknownMethod\<close> are the messages of the explicit
  \<^verbatim>\<open>raise\<close> statements, \<open>FloatParseError\<close> is the \<^verbatim>\<open>ValueError\<close> of \<^verbatim>\<open>float()\<close>,
  \<open>TypeError\<close> and \<open>PandasError\<close> are exceptions raised by library code, and
  \<open>FilterError\<close>, \<open>GroupByError\<close> and \<open>OutlierError\<close> are the re-raised
  \<^verbatim>\<open>ValueError(f"Error ...: {e}")\<close> of the three \<^verbatim>\<open>except Exception as e\<close> handlers.
\<close>

datatype error =
    ColumnNotFound string
  | NotNumeric string
  | UnknownCondition string
  | BetweenNeedsPair
  | UnknownFunction string
  | UnknownMethod string
  | FloatParseError string
  | TypeError
  | PandasError string
  | FilterError error
  | GroupByError error
  | OutlierError error

section \<open>Regular expressions\<close>

text \<open>
  The fragment of Python's \<^verbatim>\<open>re\<close> that the sources use: literals, the greedy
  repetitions \<^verbatim>\<open>c+\<close> and \<^verbatim>\<open>c*\<close> of a character class, sequence, alternation and
  numbered groups.  \<open>rmatch r s\<close> lists every way \<open>r\<close> matches a prefix of \<open>s\<close>, in the
  order in which a backtracking matcher tries them (left alternative first, longest
  repetition first), each with the remaining text and the groups it captured;
  \<open>re_search\<close> is \<^verbatim>\<open>re.search\<close>: the first way at the leftmost position that has one.
\<close>

datatype cls = Word | Space | Digit | DigitDot | WordSpace

fun in_cls :: "cls \<Rightarrow> char \<Rightarrow> bool" where
  "in_cls Word c = is_word c"
| "in_cls Space c = is_space c"
| "in_cls Digit c = is_digit c"
| "in_cls DigitDot c = (is_digit c \<or> c = CHR ''.'')"
| "in_cls WordSpace c = (is_word c \<or> is_space c)"

datatype regex =
    Lit string
  | Plus cls
  | Star cls
  | Seq regex regex
  | Alt regex regex
  | Group nat regex

type_synonym caps = "(nat \<times> string) list"

fun shorter :: "nat \<Rightarrow> nat \<Rightarrow> string \<Rightarrow> (string \<times> caps) list" where
  "shorter least 0 s = (if least = 0 then [(s, [])] else [])"
| "shorter least (Suc k) s =
     (if least \<le> Suc k then (drop (Suc k) s, []) # shorter least k s else [])"

fun rmatch :: "regex \<Rightarrow> string \<Rightarrow> (string \<times> caps) list" where
  "rmatch (Lit l) s = (if starts_with s l then [(drop (length l) s, [])] else [])"
| "rmatch (Plus c) s = shorter 1 (length (takeWhile (in_cls c) s)) s"
| "rmatch (Star c) s = shorter 0 (length (takeWhile (in_cls c) s)) s"
| "rmatch (Seq r1 r2) s =
     concat (map (\<lambda>(rest1, c1). map (\<lambda>(rest2, c2). (rest2, c1 @ c2)) (rmatch r2 rest1))
                 (rmatch r1 s))"
| "rmatch (Alt r1 r2) s = rmatch r1 s @ rmatch r2 s"
| "rmatch (Group i r) s =
     map (\<lambda>(rest, c). (rest, c @ [(i, take (length s - length rest) s)])) (rmatch r s)"

fun re_search :: "regex \<Rightarrow> string \<Rightarrow> caps option" where
  "re_search r [] = (case rmatch r [] of [] \<Rightarrow> None | (rest, c) # ms \<Rightarrow> Some c)"
| "re_search r (a # s) =
     (case rmatch r (a # s) of [] \<Rightarrow> re_search r s | (rest, c) # ms \<Rightarrow> Some c)"

text \<open>\<open>seqs r rs\<close> is the sequence \<^verbatim>\<open>r rs...\<close> and \<open>alts r rs\<close> the alternation
  \<^verbatim>\<open>r|rs...\<close>, as the patterns are written.\<close>

fun seqs :: "regex \<Rightarrow> regex list \<Rightarrow> regex" where
  "seqs r [] = r"
| "seqs r (x # xs) = Seq r (seqs x xs)"

fun alts :: "regex \<Rightarrow> regex list \<Rightarrow> regex" where
  "alts r [] = r"
| "alts r (x # xs) = Alt r (alts x xs)"

text \<open>\<open>match_group m i\<close> is \<^verbatim>\<open>m.group(i)\<close>: \<open>None\<close> when the group took no part in the match.\<close>

definition match_group :: "caps \<Rightarrow> nat \<Rightarrow> string option" where
  "match_group m i = map_of m i"

text \<open>\<^verbatim>\<open>m.group(1) or m.group(2) or m.group(3)\<close>: the first group that is neither
  \<^verbatim>\<open>None\<close> nor empty, else the last operand.\<close>

definition group_or3 :: "caps \<Rightarrow> string option" where
  "group_or3 m =
     (case match_group m 1 of
        Some (a # s) \<Rightarrow> Some (a # s)
      | _ \<Rightarrow> (case match_group m 2 of
                Some (a # s) \<Rightarrow> Some (a # s)
              | _ \<Rightarrow> match_group m 3))"

text \<open>
  \<^verbatim>\<open>float(s)\<close> on the texts a \<^verbatim>\<open>[\d.]+\<close> group captures: digits with at most one dot and
  at least one digit give the decimal's value; anything else raises \<^verbatim>\<open>ValueError\<close>.
  Numbers are exact reals: binary rounding is not modelled.
\<close>

definition py_float :: "string \<Rightarrow> error + real" where
  "py_float s =
     (let ip = takeWhile is_digit s; rest = dropWhile is_digit s in
      case rest of
        [] \<Rightarrow> (if ip = [] then Inl (FloatParseError s) else Inr (real (digits_val ip)))
      | d # fp \<Rightarrow>
          (if d = CHR ''.'' \<and> list_all is_digit fp \<and> (ip \<noteq> [] \<or> fp \<noteq> [])
           then Inr (real (digits_val ip) + real (digits_val fp) / 10 ^ length fp)
           else Inl (FloatParseError s)))"

section \<open>Tables\<close>

text \<open>
  A pandas \<^verbatim>\<open>DataFrame\<close> with the default positional index: the named columns with
  their dtypes, and the rows.  A cell is a number, a text or missing (\<^verbatim>\<open>NaN\<close>/\<^verbatim>\<open>None\<close>).
  \<open>Int64\<close> and \<open>Float64\<close> are the numeric dtypes; \<open>Object\<close> holds text.
\<close>

datatype dtype = Int64 | Float64 | Object

datatype cell = Num real | Str string | Null

record table =
  columns :: "(string \<times> dtype) list"
  rows :: "cell list list"

definition is_numeric_dtype :: "dtype \<Rightarrow> bool" where
  "is_numeric_dtype d = (d = Int64 \<or> d = Float64)"

fun cell_ok :: "dtype \<Rightarrow> cell \<Rightarrow> bool" where
  "cell_ok Int64 (Num x) = True"
| "cell_ok Int64 c = False"
| "cell_ok Float64 (Num x) = True"
| "cell_ok Float64 Null = True"
| "cell_ok Float64 (Str s) = False"
| "cell_ok Object (Str s) = True"
| "cell_ok Object Null = True"
| "cell_ok Object (Num x) = False"

text \<open>The data model's invariant: distinct column names, rows as wide as the header,
  cells of their column's dtype.\<close>

definition wf_table :: "table \<Rightarrow> bool" where
  "wf_table t =
     (distinct (map fst (columns t)) \<and>
      list_all (\<lambda>r. length r = length (columns t) \<and>
                     list_all (\<lambda>(d, c). cell_ok d c) (zip (map snd (columns t)) r))
               (rows t))"

definition col_names :: "table \<Rightarrow> string list" where
  "col_names t = map fst (columns t)"

fun col_idx :: "string \<Rightarrow> (string \<times> dtype) list \<Rightarrow> nat option" where
  "col_idx c [] = None"
| "col_idx c ((n, d) # cs) =
     (if n = c then Some 0 else map_option Suc (col_idx c cs))"

definition nth_cell :: "cell list \<Rightarrow> nat \<Rightarrow> cell" where
  "nth_cell r i = (if i < length r then r ! i else Null)"

definition col_cells :: "table \<Rightarrow> nat \<Rightarrow> cell list" where
  "col_cells t i = map (\<lambda>r. nth_cell r i) (rows t)"

definition col_dtype :: "table \<Rightarrow> nat \<Rightarrow> dtype" where
  "col_dtype t i = (if i < length (columns t) then snd (columns t ! i) else Object)"

text \<open>\<^verbatim>\<open>dataframe.empty\<close>: an axis of length 0.\<close>

definition df_empty :: "table \<Rightarrow> bool" where
  "df_empty t = (rows t = [] \<or> columns t = [])"

text \<open>\<^verbatim>\<open>dataframe[mask]\<close>: the rows whose mask entry is true.\<close>

definition select_rows :: "bool list \<Rightarrow> table \<Rightarrow> table" where
  "select_rows bm t = t\<lparr>rows := map snd (filter fst (zip bm (rows t)))\<rparr>"

text \<open>\<^verbatim>\<open>dataframe.head(n)\<close>.\<close>

definition head :: "nat \<Rightarrow> table \<Rightarrow> table" where
  "head n t = t\<lparr>rows := take n (rows t)\<rparr>"

section \<open>The pandas operations the engine relies on\<close>

text \<open>
  Comparison of a column with a value, \<^verbatim>\<open>dataframe[col] > value\<close> and the like, gives a
  boolean mask of the column's length or raises.  As in pandas: against \<^verbatim>\<open>None\<close> every
  comparison is false (\<^verbatim>\<open>!=\<close> true); a missing cell compares false (\<^verbatim>\<open>!=\<close> true); a
  number and a text are unequal, and ordering them raises \<^verbatim>\<open>TypeError\<close> (for a numeric
  column against a text whatever the column holds); a list operand must be as long as the
  column and is compared cell by cell.
\<close>

datatype cmpop = Gt | Ge | Lt | Le | Eq | Ne

datatype pyval = VNum real | VStr string | VNone | VList "pyval list"

fun cmp_real :: "cmpop \<Rightarrow> real \<Rightarrow> real \<Rightarrow> bool" where
  "cmp_real Gt x y = (x > y)"
| "cmp_real Ge x y = (x \<ge> y)"
| "cmp_real Lt x y = (x < y)"
| "cmp_real Le x y = (x \<le> y)"
| "cmp_real Eq x y = (x = y)"
| "cmp_real Ne x y = (x \<noteq> y)"

fun cmp_str :: "cmpop \<Rightarrow> string \<Rightarrow> string \<Rightarrow> bool" where
  "cmp_str Gt x y = (\<not> str_le x y)"
| "cmp_str Ge x y = str_le y x"
| "cmp_str Lt x y = (\<not> str_le y x)"
| "cmp_str Le x y = str_le x y"
| "cmp_str Eq x y = (x = y)"
| "cmp_str Ne x y = (x \<noteq> y)"

definition is_ordering :: "cmpop \<Rightarrow> bool" where
  "is_ordering p = (p \<noteq> Eq \<and> p \<noteq> Ne)"

text \<open>A comparison of unlike things: unequal, and not ordered.\<close>

definition unlike :: "cmpop \<Rightarrow> error + bool" where
  "unlike p = (if is_ordering p then Inl TypeError else Inr (p = Ne))"

fun cell_cmp :: "cmpop \<Rightarrow> cell \<Rightarrow> pyval \<Rightarrow> error + bool" where
  "cell_cmp p c VNone = Inr (p = Ne)"
| "cell_cmp p Null v = Inr (p = Ne)"
| "cell_cmp p (Num x) (VNum y) = Inr (cmp_real p x y)"
| "cell_cmp p (Str x) (VStr y) = Inr (cmp_str p x y)"
| "cell_cmp p (Num x) (VStr y) = unlike p"
| "cell_cmp p (Str x) (VNum y) = unlike p"
| "cell_cmp p c (VList vs) = unlike p"

fun collect :: "(error + 'a) list \<Rightarrow> error + 'a list" where
  "collect [] = Inr []"
| "collect (Inl e # xs) = Inl e"
| "collect (Inr x # xs) = (case collect xs of Inl e \<Rightarrow> Inl e | Inr ys \<Rightarrow> Inr (x # ys))"

definition series_cmp :: "cmpop \<Rightarrow> dtype \<Rightarrow> cell list \<Rightarrow> pyval \<Rightarrow> error + bool list" where
  "series_cmp p d cells v =
     (case v of
        VList vs \<Rightarrow>
          (if length vs \<noteq> length cells then Inl (PandasError ''Lengths must match to compare'')
           else collect (map (\<lambda>(c, w). cell_cmp p c w) (zip cells vs)))
      | VStr y \<Rightarrow>
          (if is_numeric_dtype d
           then (if is_ordering p then Inl TypeError else Inr (map (\<lambda>c. p = Ne) cells))
           else collect (map (\<lambda>c. cell_cmp p c v) cells))
      | _ \<Rightarrow> collect (map (\<lambda>c. cell_cmp p c v) cells))"

text \<open>
  \<^verbatim>\<open>sort_values(by=col, ascending=...)\<close>: missing keys last; a column holding both numbers
  and texts cannot be ordered and raises.  The rows with a key are put in order by the
  sorting routine of the library, which for a descending sort is run on the reversed rows
  and its result reversed.  The default routine (\<^verbatim>\<open>quicksort\<close>) leaves the order of rows
  with equal keys to the implementation, so the routine is a parameter, \<open>sorter\<close>: from
  the position of the key and the rows to the rows in ascending order of their keys.
  \<open>sort_rows\<close> is the instance used in examples: the stable insertion sort.
\<close>

type_synonym row_sorter = "nat \<Rightarrow> cell list list \<Rightarrow> cell list list"

fun cell_le :: "cell \<Rightarrow> cell \<Rightarrow> bool" where
  "cell_le (Num x) (Num y) = (x \<le> y)"
| "cell_le (Num x) (Str b) = True"
| "cell_le (Str a) (Num y) = False"
| "cell_le (Str a) (Str b) = str_le a b"
| "cell_le c Null = True"
| "cell_le Null c = False"

fun insert_row :: "nat \<Rightarrow> cell list \<Rightarrow> cell list list \<Rightarrow> cell list list" where
  "insert_row i r [] = [r]"
| "insert_row i r (x # xs) =
     (if cell_le (nth_cell r i) (nth_cell x i) then r # x # xs else x # insert_row i r xs)"

definition sort_rows :: "nat \<Rightarrow> cell list list \<Rightarrow> cell list list" where
  "sort_rows i rs = foldr (insert_row i) rs []"

fun is_num :: "cell \<Rightarrow> bool" where
  "is_num (Num x) = True"
| "is_num c = False"

fun is_str :: "cell \<Rightarrow> bool" where
  "is_str (Str s) = True"
| "is_str c = False"

definition sort_values :: "row_sorter \<Rightarrow> table \<Rightarrow> nat \<Rightarrow> bool \<Rightarrow> error + table" where
  "sort_values sorter t i ascending =
     (let keyed = filter (\<lambda>r. nth_cell r i \<noteq> Null) (rows t);
          missing = filter (\<lambda>r. nth_cell r i = Null) (rows t)
      in if list_ex is_num (col_cells t i) \<and> list_ex is_str (col_cells t i) then Inl TypeError
         else Inr (t\<lparr>rows := (if ascending then sorter i keyed
                               else rev (sorter i (rev keyed))) @ missing\<rparr>))"

text \<open>
  \<^verbatim>\<open>groupby(col).size().reset_index(name='count')\<close>: one row per distinct key that is not
  missing, keys ascending, with the number of rows of the group; it raises when the key
  column is itself called \<^verbatim>\<open>count\<close>.
\<close>

fun insert_key :: "cell \<Rightarrow> cell list \<Rightarrow> cell list" where
  "insert_key k [] = [k]"
| "insert_key k (x # xs) = (if cell_le k x then k # x # xs else x # insert_key k xs)"

definition group_keys :: "cell list \<Rightarrow> cell list" where
  "group_keys cs = foldr insert_key (remdups (filter (\<lambda>c. c \<noteq> Null) cs)) []"

definition group_size :: "table \<Rightarrow> nat \<Rightarrow> cell \<Rightarrow> nat" where
  "group_size t i k = length (filter (\<lambda>r. nth_cell r i = k) (rows t))"

definition groupby_size :: "table \<Rightarrow> string \<Rightarrow> nat \<Rightarrow> error + table" where
  "groupby_size t col i =
     (if col = ''count'' then Inl (PandasError ''cannot insert count, already exists'')
      else Inr \<lparr>columns = [(col, col_dtype t i), (''count'', Int64)],
                rows = map (\<lambda>k. [k, Num (real (group_size t i k))])
                           (group_keys (col_cells t i))\<rparr>)"

section \<open>The query executor: \<^verbatim>\<open>data_tools.execute_complex_query\<close>\<close>

text \<open>
  The four blocks of the function, in the order of the source: ORDER BY, LIMIT, WHERE,
  GROUP BY.  Each works on the result of the one before; all of them read the lower-cased
  query, also for the column names they look up in \<^verbatim>\<open>result.columns\<close>.
\<close>

definition order_re :: regex where
  "order_re =
     alts (seqs (Lit ''order by '') [Group 1 (Plus Word)])
          [seqs (Lit ''sort by '') [Group 2 (Plus Word)],
           seqs (Lit ''sorted by '') [Group 3 (Plus Word)]]"

definition limit_re :: regex where
  "limit_re =
     alts (seqs (Lit ''limit'') [Plus Space, Group 1 (Plus Digit)])
          [seqs (Lit ''first'') [Plus Space, Group 2 (Plus Digit)],
           seqs (Lit ''top'') [Plus Space, Group 3 (Plus Digit)]]"

definition where_re :: regex where
  "where_re =
     seqs (Lit ''where'')
          [Plus Space, Group 1 (Plus Word), Star Space,
           Group 2 (alts (Lit ''>'') [Lit ''<'', Lit ''>='', Lit ''<='', Lit ''=='']),
           Star Space, Group 3 (Plus DigitDot)]"

definition group_re :: regex where
  "group_re = seqs (Lit ''group by '') [Group 1 (Plus Word)]"

definition order_step :: "row_sorter \<Rightarrow> table \<Rightarrow> string \<Rightarrow> error + table" where
  "order_step sorter result query_lower =
     (case re_search order_re query_lower of
        None \<Rightarrow> Inr result
      | Some m \<Rightarrow>
          (case group_or3 m of
             None \<Rightarrow> Inr result
           | Some col \<Rightarrow>
               (case col_idx col (columns result) of
                  None \<Rightarrow> Inr result
                | Some i \<Rightarrow>
                    sort_values sorter result i (\<not> contains_str ''desc'' query_lower))))"

definition limit_step :: "table \<Rightarrow> string \<Rightarrow> error + table" where
  "limit_step result query_lower =
     (case re_search limit_re query_lower of
        None \<Rightarrow> Inr result
      | Some m \<Rightarrow>
          (case group_or3 m of
             None \<Rightarrow> Inl TypeError
           | Some ds \<Rightarrow> Inr (head (digits_val ds) result)))"

definition where_op :: "string \<Rightarrow> cmpop option" where
  "where_op s =
     (if s = ''>'' then Some Gt
      else if s = ''<'' then Some Lt
      else if s = ''>='' then Some Ge
      else if s = ''<='' then Some Le
      else if s = ''=='' then Some Eq
      else None)"

definition where_step :: "table \<Rightarrow> string \<Rightarrow> error + table" where
  "where_step result query_lower =
     (if contains_str ''where'' query_lower then
        (case re_search where_re query_lower of
           None \<Rightarrow> Inr result
         | Some m \<Rightarrow>
             (case (match_group m 1, match_group m 2, match_group m 3) of
                (Some col, Some opr, Some num) \<Rightarrow>
                  (case py_float num of
                     Inl e \<Rightarrow> Inl e
                   | Inr val \<Rightarrow>
                       (case col_idx col (columns result) of
                          None \<Rightarrow> Inr result
                        | Some i \<Rightarrow>
                            (case where_op opr of
                               None \<Rightarrow> Inr result
                             | Some p \<Rightarrow>
                                 (case series_cmp p (col_dtype result i) (col_cells result i)
                                         (VNum val) of
                                    Inl e \<Rightarrow> Inl e
                                  | Inr bm \<Rightarrow> Inr (select_rows bm result)))))
              | _ \<Rightarrow> Inl TypeError))
      else Inr result)"

definition group_step :: "table \<Rightarrow> string \<Rightarrow> error + table" where
  "group_step result query_lower =
     (case re_search group_re query_lower of
        None \<Rightarrow> Inr result
      | Some m \<Rightarrow>
          (case match_group m 1 of
             None \<Rightarrow> Inr result
           | Some col \<Rightarrow>
               (case col_idx col (columns result) of
                  None \<Rightarrow> Inr result
                | Some i \<Rightarrow> groupby_size result col i)))"

text \<open>The table as it stands before the GROUP BY block.\<close>

definition before_group :: "row_sorter \<Rightarrow> table \<Rightarrow> string \<Rightarrow> error + table" where
  "before_group sorter dataframe query =
     (case order_step sorter dataframe (lower query) of
        Inl e \<Rightarrow> Inl e
      | Inr r1 \<Rightarrow>
          (case limit_step r1 (lower query) of
             Inl e \<Rightarrow> Inl e
           | Inr r2 \<Rightarrow> where_step r2 (lower query)))"

definition execute_complex_query :: "row_sorter \<Rightarrow> table \<Rightarrow> string \<Rightarrow> error + table" where
  "execute_complex_query sorter dataframe query =
     (case before_group sorter dataframe query of
        Inl e \<Rightarrow> Inl e
      | Inr r3 \<Rightarrow> group_step r3 (lower query))"

section \<open>The query parser: \<^verbatim>\<open>advanced_data_tools.parse_natural_language_query\<close>\<close>

text \<open>
  A condition is the dictionary \<^verbatim>\<open>{'column': ..., 'operator': ..., 'value': ...}\<close>; a key
  may be absent, which \<^verbatim>\<open>dict.get\<close> reads as \<^verbatim>\<open>None\<close> (as \<^verbatim>\<open>'=='\<close> for the operator).
\<close>

record condition =
  column :: "string option"
  operator :: "string option"
  operand :: pyval

record operations =
  select_columns :: "string list option"
  where_conditions :: "condition list"
  group_by :: "string option"
  order_by :: "string option"
  order_direction :: string
  limit :: "nat option"
  aggregate :: "string option"

definition order_patterns :: "regex list" where
  "order_patterns =
     [seqs (Lit ''order by '') [Group 1 (Plus Word)],
      seqs (Lit ''sort by '') [Group 1 (Plus Word)],
      seqs (Lit ''sorted by '') [Group 1 (Plus Word)],
      seqs (Lit ''sort '') [Group 1 (Plus Word)]]"

definition group_patterns :: "regex list" where
  "group_patterns =
     [seqs (Lit ''group by '') [Group 1 (Plus Word)],
      seqs (Lit ''grouped by '') [Group 1 (Plus Word)],
      seqs (Lit ''group '') [Group 1 (Plus Word)]]"

text \<open>The loops over \<^verbatim>\<open>order_patterns\<close> and \<^verbatim>\<open>group_patterns\<close>: the first pattern that
  matches with a known column wins (\<^verbatim>\<open>break\<close>); a match with an unknown column goes on
  to the next pattern.\<close>

fun first_known :: "regex list \<Rightarrow> string \<Rightarrow> string list \<Rightarrow> string option" where
  "first_known [] query_lower cols = None"
| "first_known (p # ps) query_lower cols =
     (case re_search p query_lower of
        None \<Rightarrow> first_known ps query_lower cols
      | Some m \<Rightarrow>
          (case match_group m 1 of
             None \<Rightarrow> first_known ps query_lower cols
           | Some col \<Rightarrow>
               (if col \<in> set cols then Some col else first_known ps query_lower cols)))"

text \<open>The four \<^verbatim>\<open>where_patterns\<close>, each with its extractor.  \<^verbatim>\<open>float\<close> can raise.\<close>

definition where_symbolic :: regex where
  "where_symbolic =
     seqs (Lit ''where '')
          [Group 1 (Plus Word), Star Space,
           Group 2 (alts (Lit ''>'') [Lit ''>='', Lit ''<'', Lit ''<='', Lit ''=='', Lit ''!='']),
           Star Space, Group 3 (Plus DigitDot)]"

definition where_is :: regex where
  "where_is =
     seqs (Lit ''where '')
          [Group 1 (Plus Word), Plus Space, Lit ''is'', Plus Space, Group 2 (Plus WordSpace)]"

definition where_greater :: regex where
  "where_greater =
     seqs (Lit ''where '')
          [Group 1 (Plus Word), Plus Space, Lit ''greater'', Plus Space, Lit ''than'',
           Plus Space, Group 2 (Plus DigitDot)]"

definition where_less :: regex where
  "where_less =
     seqs (Lit ''where '')
          [Group 1 (Plus Word), Plus Space, Lit ''less'', Plus Space, Lit ''than'',
           Plus Space, Group 2 (Plus DigitDot)]"

definition float_group :: "caps \<Rightarrow> nat \<Rightarrow> error + real" where
  "float_group m i = (case match_group m i of None \<Rightarrow> Inl TypeError | Some s \<Rightarrow> py_float s)"

definition extract_symbolic :: "caps \<Rightarrow> error + condition" where
  "extract_symbolic m =
     (case float_group m 3 of
        Inl e \<Rightarrow> Inl e
      | Inr v \<Rightarrow> Inr \<lparr>column = match_group m 1, operator = match_group m 2, operand = VNum v\<rparr>)"

definition extract_is :: "caps \<Rightarrow> error + condition" where
  "extract_is m =
     (case match_group m 2 of
        None \<Rightarrow> Inl TypeError
      | Some s \<Rightarrow> Inr \<lparr>column = match_group m 1, operator = Some ''=='', operand = VStr (strip s)\<rparr>)"

definition extract_than :: "string \<Rightarrow> caps \<Rightarrow> error + condition" where
  "extract_than opr m =
     (case float_group m 2 of
        Inl e \<Rightarrow> Inl e
      | Inr v \<Rightarrow> Inr \<lparr>column = match_group m 1, operator = Some opr, operand = VNum v\<rparr>)"

definition where_patterns :: "(regex \<times> (caps \<Rightarrow> error + condition)) list" where
  "where_patterns =
     [(where_symbolic, extract_symbolic),
      (where_is, extract_is),
      (where_greater, extract_than ''>''),
      (where_less, extract_than ''<'')]"

text \<open>\<^verbatim>\<open>condition['column'] in dataframe.columns\<close>.\<close>

definition known_column :: "string list \<Rightarrow> condition \<Rightarrow> bool" where
  "known_column cols c = (case column c of None \<Rightarrow> False | Some n \<Rightarrow> n \<in> set cols)"

text \<open>The loop over \<^verbatim>\<open>where_patterns\<close>: every pattern that matches appends its condition
  when the column is known; there is no \<^verbatim>\<open>break\<close>.\<close>

fun where_loop ::
  "(regex \<times> (caps \<Rightarrow> error + condition)) list \<Rightarrow> string \<Rightarrow> string list \<Rightarrow> condition list
     \<Rightarrow> error + condition list" where
  "where_loop [] query_lower cols acc = Inr acc"
| "where_loop ((p, extractor) # ps) query_lower cols acc =
     (case re_search p query_lower of
        None \<Rightarrow> where_loop ps query_lower cols acc
      | Some m \<Rightarrow>
          (case extractor m of
             Inl e \<Rightarrow> Inl e
           | Inr c \<Rightarrow>
               where_loop ps query_lower cols (if known_column cols c then acc @ [c] else acc)))"

definition parse_limit :: "string \<Rightarrow> error + nat option" where
  "parse_limit query_lower =
     (case re_search limit_re query_lower of
        None \<Rightarrow> Inr None
      | Some m \<Rightarrow>
          (case group_or3 m of
             None \<Rightarrow> Inl TypeError
           | Some ds \<Rightarrow> Inr (Some (digits_val ds))))"

definition parse_natural_language_query :: "string \<Rightarrow> string list \<Rightarrow> error + operations" where
  "parse_natural_language_query query cols =
     (let query_lower = lower query;
          ob = first_known order_patterns query_lower cols;
          dir = (if ob \<noteq> None \<and>
                    (contains_str ''desc'' query_lower \<or> contains_str ''descending'' query_lower)
                 then ''desc'' else ''asc'');
          gb = first_known group_patterns query_lower cols
      in case where_loop where_patterns query_lower cols [] of
           Inl e \<Rightarrow> Inl e
         | Inr conds \<Rightarrow>
             (case parse_limit query_lower of
                Inl e \<Rightarrow> Inl e
              | Inr n \<Rightarrow>
                  Inr \<lparr>select_columns = None, where_conditions = conds, group_by = gb,
                       order_by = ob, order_direction = dir, limit = n,
                       aggregate = None\<rparr>))"

section \<open>Notions used to state the claims about the parser\<close>

text \<open>
  What one phrasing contributes to the conditions of a command: nothing when the command
  has no fragment of that phrasing, else the condition read from the leftmost such
  fragment, provided that it names a known column.
\<close>

definition captured ::
  "regex \<Rightarrow> (caps \<Rightarrow> error + condition) \<Rightarrow> string \<Rightarrow> string list \<Rightarrow> condition list" where
  "captured p extractor query_lower cols =
     (case re_search p query_lower of
        None \<Rightarrow> []
      | Some m \<Rightarrow>
          (case extractor m of
             Inl e \<Rightarrow> []
           | Inr c \<Rightarrow> (if known_column cols c then [c] else [])))"

section \<open>The condition evaluator: \<^verbatim>\<open>data_tools.filter_dataframe\<close> and \<^verbatim>\<open>multi_condition_filter\<close>\<close>

text \<open>
  \<^verbatim>\<open>dataframe[col].astype(str).str.contains(str(value), case=False, na=False)\<close> is pandas'
  regular-expression search in the text form of each cell.  It is a parameter of the
  model, \<open>str_contains\<close>: applied to the value it raises (a pattern that does not compile)
  or gives the test applied to each cell of the column.  \<open>plain_contains\<close> is the instance
  used in examples: on a text column, for a text pattern without regular-expression
  operators, the case-insensitive substring test; a missing cell does not match.
\<close>

type_synonym contains_fn = "pyval \<Rightarrow> error + (dtype \<Rightarrow> cell \<Rightarrow> bool)"

definition plain_contains :: contains_fn where
  "plain_contains v =
     (case v of
        VStr p \<Rightarrow> Inr (\<lambda>d c. case c of Str s \<Rightarrow> contains_str (lower p) (lower s) | _ \<Rightarrow> False)
      | _ \<Rightarrow> Inr (\<lambda>d c. False))"

definition contains_mask :: "contains_fn \<Rightarrow> table \<Rightarrow> nat \<Rightarrow> pyval \<Rightarrow> error + bool list" where
  "contains_mask str_contains t i v =
     (case str_contains v of
        Inl e \<Rightarrow> Inl e
      | Inr f \<Rightarrow> Inr (map (f (col_dtype t i)) (col_cells t i)))"

definition column_cmp :: "cmpop \<Rightarrow> table \<Rightarrow> nat \<Rightarrow> pyval \<Rightarrow> error + bool list" where
  "column_cmp p t i v = series_cmp p (col_dtype t i) (col_cells t i) v"

definition mask_and :: "bool list \<Rightarrow> bool list \<Rightarrow> bool list" where
  "mask_and a b = map (\<lambda>(x, y). x \<and> y) (zip a b)"

definition mask_or :: "bool list \<Rightarrow> bool list \<Rightarrow> bool list" where
  "mask_or a b = map (\<lambda>(x, y). x \<or> y) (zip a b)"

text \<open>\<^verbatim>\<open>(dataframe[column] >= value[0]) & (dataframe[column] <= value[1])\<close>.\<close>

definition between_mask :: "table \<Rightarrow> nat \<Rightarrow> pyval \<Rightarrow> pyval \<Rightarrow> error + bool list" where
  "between_mask t i lo hi =
     (case column_cmp Ge t i lo of
        Inl e \<Rightarrow> Inl e
      | Inr a \<Rightarrow> (case column_cmp Le t i hi of Inl e \<Rightarrow> Inl e | Inr b \<Rightarrow> Inr (mask_and a b)))"

text \<open>The body of the \<^verbatim>\<open>try\<close> block of \<^verbatim>\<open>filter_dataframe\<close>: the mask of the condition.\<close>

definition filter_mask ::
  "contains_fn \<Rightarrow> table \<Rightarrow> nat \<Rightarrow> string \<Rightarrow> pyval \<Rightarrow> error + bool list" where
  "filter_mask str_contains t i cond v =
     (let c = lower cond in
      if c \<in> set [''greater'', ''>'', ''gt'', ''above''] then column_cmp Gt t i v
      else if c \<in> set [''less'', ''<'', ''lt'', ''below''] then column_cmp Lt t i v
      else if c \<in> set [''equal'', ''=='', ''eq'', ''equals''] then column_cmp Eq t i v
      else if c \<in> set [''contains'', ''in'', ''includes''] then contains_mask str_contains t i v
      else if c \<in> set [''between'', ''range''] then
        (case v of
           VList [lo, hi] \<Rightarrow> between_mask t i lo hi
         | _ \<Rightarrow> Inl BetweenNeedsPair)
      else Inl (UnknownCondition cond))"

definition filter_dataframe ::
  "contains_fn \<Rightarrow> string \<Rightarrow> string \<Rightarrow> pyval \<Rightarrow> table \<Rightarrow> error + table" where
  "filter_dataframe str_contains col cond v dataframe =
     (if df_empty dataframe then Inr dataframe
      else case col_idx col (columns dataframe) of
             None \<Rightarrow> Inl (ColumnNotFound col)
           | Some i \<Rightarrow>
               (case filter_mask str_contains dataframe i cond v of
                  Inl e \<Rightarrow> Inl (FilterError e)
                | Inr bm \<Rightarrow> Inr (select_rows bm dataframe)))"

definition upper_char :: "char \<Rightarrow> char" where
  "upper_char c =
     (case map_of (zip ''abcdefghijklmnopqrstuvwxyz'' ''ABCDEFGHIJKLMNOPQRSTUVWXYZ'') c of
        Some d \<Rightarrow> d
      | None \<Rightarrow> c)"

definition upper :: "string \<Rightarrow> string" where
  "upper s = map upper_char s"

definition symbolic_op :: "string \<Rightarrow> cmpop option" where
  "symbolic_op s =
     (if s = ''>'' then Some Gt
      else if s = ''>='' then Some Ge
      else if s = ''<'' then Some Lt
      else if s = ''<='' then Some Le
      else if s = ''=='' then Some Eq
      else if s = ''!='' then Some Ne
      else None)"

text \<open>
  One round of the loop of \<^verbatim>\<open>multi_condition_filter\<close>: \<open>None\<close> when nothing is appended to
  \<^verbatim>\<open>masks\<close> (the column is unknown, or no branch of the \<^verbatim>\<open>if\<close>/\<^verbatim>\<open>elif\<close> chain takes the
  operator), else the mask appended.
\<close>

definition condition_mask ::
  "contains_fn \<Rightarrow> table \<Rightarrow> condition \<Rightarrow> error + bool list option" where
  "condition_mask str_contains dataframe c =
     (let opr = (case operator c of None \<Rightarrow> ''=='' | Some s \<Rightarrow> s) in
      case column c of
        None \<Rightarrow> Inr None
      | Some col \<Rightarrow>
          (case col_idx col (columns dataframe) of
             None \<Rightarrow> Inr None
           | Some i \<Rightarrow>
               (case symbolic_op opr of
                  Some p \<Rightarrow> map_sum id Some (column_cmp p dataframe i (operand c))
                | None \<Rightarrow>
                    (if opr = ''contains''
                     then map_sum id Some (contains_mask str_contains dataframe i (operand c))
                     else Inr None))))"

fun build_masks ::
  "contains_fn \<Rightarrow> table \<Rightarrow> condition list \<Rightarrow> error + bool list list" where
  "build_masks str_contains dataframe [] = Inr []"
| "build_masks str_contains dataframe (c # cs) =
     (case condition_mask str_contains dataframe c of
        Inl e \<Rightarrow> Inl e
      | Inr mo \<Rightarrow>
          (case build_masks str_contains dataframe cs of
             Inl e \<Rightarrow> Inl e
           | Inr ms \<Rightarrow> Inr (case mo of None \<Rightarrow> ms | Some m \<Rightarrow> m # ms)))"

definition multi_condition_filter ::
  "contains_fn \<Rightarrow> table \<Rightarrow> condition list \<Rightarrow> string \<Rightarrow> error + table" where
  "multi_condition_filter str_contains dataframe conditions logic =
     (if conditions = [] then Inr dataframe
      else case build_masks str_contains dataframe conditions of
             Inl e \<Rightarrow> Inl e
           | Inr masks \<Rightarrow>
               (case masks of
                  [] \<Rightarrow> Inr dataframe
                | m # ms \<Rightarrow>
                    Inr (select_rows
                           (if upper logic = ''AND'' then foldl mask_and m ms
                            else foldl mask_or m ms)
                           dataframe)))"

section \<open>Notions used to state the claims about filtering\<close>

text \<open>
  The intersection and the union of row sets, on masks over the \<open>n\<close> row positions: a
  position is in \<open>mask_all ms n\<close> when every mask of \<open>ms\<close> holds there, in \<open>mask_any ms n\<close>
  when some mask does.  \<open>present\<close> keeps the masks of the conditions that were not skipped.
  \<open>evaluated str_contains t c mo\<close>: the condition \<open>c\<close> names an unknown column and has no
  mask (\<open>mo = None\<close>), or it names a known column and the evaluator computes its mask
  \<open>m\<close> (\<open>mo = Some m\<close>).
\<close>

definition mask_all :: "bool list list \<Rightarrow> nat \<Rightarrow> bool list" where
  "mask_all ms n = map (\<lambda>j. list_all (\<lambda>m. m ! j) ms) [0..<n]"

definition mask_any :: "bool list list \<Rightarrow> nat \<Rightarrow> bool list" where
  "mask_any ms n = map (\<lambda>j. list_ex (\<lambda>m. m ! j) ms) [0..<n]"

fun present :: "'a option list \<Rightarrow> 'a list" where
  "present [] = []"
| "present (None # xs) = present xs"
| "present (Some x # xs) = x # present xs"

definition evaluated :: "contains_fn \<Rightarrow> table \<Rightarrow> condition \<Rightarrow> bool list option \<Rightarrow> bool" where
  "evaluated str_contains t c mo =
     (case mo of
        None \<Rightarrow> \<not> known_column (col_names t) c
      | Some m \<Rightarrow> known_column (col_names t) c \<and> condition_mask str_contains t c = Inr (Some m))"

section \<open>The result normalizer: the pipe-table strategy of \<^verbatim>\<open>parse_text_to_dataframe\<close>\<close>

text \<open>
  The loop that gathers \<^verbatim>\<open>table_lines\<close>, with its flag \<^verbatim>\<open>in_table\<close>: a line that contains
  and, once stripped, starts with \<^verbatim>\<open>|\<close> is taken (first branch); otherwise, inside a
  table, a line containing \<^verbatim>\<open>---\<close> is passed over (\<^verbatim>\<open>continue\<close>), and a blank line or any
  other line ends the table (\<^verbatim>\<open>break\<close>).
\<close>

fun gather_table_lines :: "bool \<Rightarrow> string list \<Rightarrow> string list" where
  "gather_table_lines in_table [] = []"
| "gather_table_lines in_table (line # ls) =
     (if CHR ''|'' \<in> set line \<and> starts_with (strip line) ''|''
      then line # gather_table_lines True ls
      else if in_table \<and> (strip line = [] \<or> contains_str ''---'' line)
      then (if contains_str ''---'' line then gather_table_lines in_table ls else [])
      else if in_table then []
      else gather_table_lines in_table ls)"

text \<open>\<^verbatim>\<open>[p.strip() for p in line.strip().strip('|').split('|')]\<close>.\<close>

definition line_parts :: "string \<Rightarrow> string list" where
  "line_parts line =
     map strip (split_on CHR ''|'' (strip_chars (\<lambda>c. c = CHR ''|'') (strip line)))"

definition cleaned_lines :: "string list \<Rightarrow> string list list" where
  "cleaned_lines table_lines =
     filter (\<lambda>parts. parts \<noteq> [] \<and> list_ex (\<lambda>p. p \<noteq> []) parts) (map line_parts table_lines)"

text \<open>
  \<^verbatim>\<open>pd.DataFrame(padded_rows, columns=headers)\<close> followed by the removal of the columns
  that are empty in every row; \<open>None\<close> when the constructor raises (a row wider than the
  header: the \<^verbatim>\<open>except Exception: pass\<close> then leaves the strategy) or nothing is left.
  Every cell is a text.
\<close>

definition keep_columns :: "bool list \<Rightarrow> 'a list \<Rightarrow> 'a list" where
  "keep_columns keep xs = map snd (filter fst (zip keep xs))"

definition frame_of_rows :: "string list \<Rightarrow> string list list \<Rightarrow> table option" where
  "frame_of_rows headers padded_rows =
     (if list_ex (\<lambda>row. length headers < length row) padded_rows then None
      else
        (let keep = map (\<lambda>j. list_ex (\<lambda>row. row ! j \<noteq> []) padded_rows) [0..<length headers];
             df = \<lparr>columns = keep_columns keep (map (\<lambda>h. (h, Object)) headers),
                   rows = map (\<lambda>row. keep_columns keep (map Str row)) padded_rows\<rparr>
         in if df_empty df then None else Some df))"

definition parse_pipe_table :: "string \<Rightarrow> table option" where
  "parse_pipe_table text =
     (if text = [] then None
      else
        (let table_lines = gather_table_lines False (split_on CHR 0x0A text);
             cleaned = cleaned_lines table_lines
         in case cleaned of
              headers # data_rows \<Rightarrow>
                (if data_rows \<noteq> [] \<and> headers \<noteq> [] then
                   (let data_rows = filter (\<lambda>row. list_ex (\<lambda>cell. cell \<noteq> []) row) data_rows in
                    if data_rows \<noteq> [] then
                      frame_of_rows headers
                        (map (\<lambda>row. row @ replicate (length headers - length row) [])
                             data_rows)
                    else None)
                 else None)
            | [] \<Rightarrow> None))"

section \<open>Outlier detection: \<^verbatim>\<open>data_tools.detect_outliers\<close>\<close>

text \<open>
  \<^verbatim>\<open>dataframe[column].dtype not in [np.number]\<close> compares the column's dtype with the
  abstract scalar type \<^verbatim>\<open>np.number\<close>.  No integer and no object dtype is equal to it.
  NumPy versions that still convert \<^verbatim>\<open>np.number\<close> to a dtype read it as \<^verbatim>\<open>float64\<close>; later
  ones convert it to no dtype.  The parameter \<open>legacy\<close> says which NumPy is at hand.
\<close>

definition in_np_number :: "bool \<Rightarrow> dtype \<Rightarrow> bool" where
  "in_np_number legacy d = (legacy \<and> d = Float64)"

fun numbers :: "cell list \<Rightarrow> real list" where
  "numbers [] = []"
| "numbers (Num x # cs) = x # numbers cs"
| "numbers (c # cs) = numbers cs"

text \<open>\<^verbatim>\<open>Series.quantile(q)\<close>: linear interpolation between the order statistics of the
  values that are not missing; \<^verbatim>\<open>NaN\<close> when there is none.\<close>

definition quantile :: "cell list \<Rightarrow> real \<Rightarrow> real option" where
  "quantile cells q =
     (let s = sort (numbers cells) in
      if s = [] then None
      else
        (let pos = real (length s - 1) * q;
             lo = nat \<lfloor>pos\<rfloor>;
             frac = pos - real lo
         in Some (if lo + 1 < length s then s ! lo + (s ! (lo + 1) - s ! lo) * frac
                  else s ! lo)))"

definition iqr_mask :: "cell list \<Rightarrow> bool list" where
  "iqr_mask cells =
     (case (quantile cells (1 / 4), quantile cells (3 / 4)) of
        (Some q1, Some q3) \<Rightarrow>
          (let iqr = q3 - q1;
               lower_bound = q1 - 1.5 * iqr;
               upper_bound = q3 + 1.5 * iqr
           in map (\<lambda>c. case c of Num x \<Rightarrow> x < lower_bound \<or> x > upper_bound | _ \<Rightarrow> False) cells)
      | _ \<Rightarrow> map (\<lambda>c. False) cells)"

text \<open>The sample standard deviation (\<^verbatim>\<open>ddof=1\<close>) of at least two values.  It is a square
  root, so it has no code equation: evaluation leaves it as it stands.\<close>

definition sample_std :: "real list \<Rightarrow> real" where
  "sample_std xs =
     sqrt (sum_list (map (\<lambda>x. (x - sum_list xs / real (length xs))\<^sup>2) xs)
           / real (length xs - 1))"

declare sample_std_def [code del]

text \<open>\<^verbatim>\<open>np.abs((x - mean) / std) > 3\<close> with the sample standard deviation; with fewer than
  two values, or a deviation of zero, every quotient is \<^verbatim>\<open>NaN\<close> and no row is flagged.\<close>

definition zscore_mask :: "cell list \<Rightarrow> bool list" where
  "zscore_mask cells =
     (let xs = numbers cells; n = length xs in
      if n < 2 then map (\<lambda>c. False) cells
      else
        (let mean = sum_list xs / real n;
             sd = sample_std xs
         in if sd = 0 then map (\<lambda>c. False) cells
            else map (\<lambda>c. case c of Num x \<Rightarrow> \<bar>x - mean\<bar> / sd > 3 | _ \<Rightarrow> False) cells))"

definition detect_outliers :: "bool \<Rightarrow> table \<Rightarrow> string \<Rightarrow> string \<Rightarrow> error + table" where
  "detect_outliers legacy dataframe col method =
     (case col_idx col (columns dataframe) of
        None \<Rightarrow> Inl (ColumnNotFound col)
      | Some i \<Rightarrow>
          (if \<not> in_np_number legacy (col_dtype dataframe i) then Inl (NotNumeric col)
           else if lower method = ''iqr''
           then Inr (select_rows (iqr_mask (col_cells dataframe i)) dataframe)
           else if lower method = ''zscore''
           then Inr (select_rows (zscore_mask (col_cells dataframe i)) dataframe)
           else Inl (OutlierError (UnknownMethod method))))"

section \<open>The reductions of pandas\<close>

text \<open>
  \<^verbatim>\<open>sum\<close>, \<^verbatim>\<open>mean\<close>, \<^verbatim>\<open>count\<close>, \<^verbatim>\<open>max\<close>, \<^verbatim>\<open>min\<close> and \<^verbatim>\<open>std\<close> of a column or of a group,
  missing cells left out.  On a numeric column they never raise; an empty \<^verbatim>\<open>mean\<close>,
  \<^verbatim>\<open>max\<close> or \<^verbatim>\<open>min\<close> and a \<^verbatim>\<open>std\<close> of fewer than two values are \<^verbatim>\<open>NaN\<close>.  On a text column
  \<^verbatim>\<open>count\<close>, \<^verbatim>\<open>max\<close> and \<^verbatim>\<open>min\<close> work, \<^verbatim>\<open>sum\<close> concatenates, \<^verbatim>\<open>mean\<close> and \<^verbatim>\<open>std\<close> raise.
  The sum of an \<^verbatim>\<open>int64\<close> column is computed in 64-bit integers and wraps around; the
  floating-point results are exact reals here: binary rounding is not modelled.
\<close>

datatype aggfun = AggSum | AggMean | AggCount | AggMax | AggMin | AggStd

fun texts :: "cell list \<Rightarrow> string list" where
  "texts [] = []"
| "texts (Str s # cs) = s # texts cs"
| "texts (c # cs) = texts cs"

definition count_present :: "cell list \<Rightarrow> nat" where
  "count_present cells = length (filter (\<lambda>c. c \<noteq> Null) cells)"

text \<open>The value of an integer as a signed 64-bit integer.\<close>

definition wrap_int64 :: "real \<Rightarrow> real" where
  "wrap_int64 x = real_of_int ((\<lfloor>x\<rfloor> + 2 ^ 63) mod 2 ^ 64 - 2 ^ 63)"

definition reduce_numbers :: "aggfun \<Rightarrow> dtype \<Rightarrow> cell list \<Rightarrow> cell" where
  "reduce_numbers f d cells =
     (let xs = numbers cells; n = length xs in
      case f of
        AggSum \<Rightarrow> Num (if d = Int64 then wrap_int64 (sum_list xs) else sum_list xs)
      | AggMean \<Rightarrow> (if n = 0 then Null else Num (sum_list xs / real n))
      | AggCount \<Rightarrow> Num (real (count_present cells))
      | AggMax \<Rightarrow> (case xs of [] \<Rightarrow> Null | x # r \<Rightarrow> Num (fold max r x))
      | AggMin \<Rightarrow> (case xs of [] \<Rightarrow> Null | x # r \<Rightarrow> Num (fold min r x))
      | AggStd \<Rightarrow>
          (if n < 2 then Null else Num (sample_std xs)))"

definition reduce_texts :: "aggfun \<Rightarrow> cell list \<Rightarrow> error + cell" where
  "reduce_texts f cells =
     (let ts = texts cells in
      case f of
        AggSum \<Rightarrow> Inr (if ts = [] then Num 0 else Str (concat ts))
      | AggMean \<Rightarrow> Inl TypeError
      | AggCount \<Rightarrow> Inr (Num (real (count_present cells)))
      | AggMax \<Rightarrow>
          Inr (case ts of [] \<Rightarrow> Null
               | x # r \<Rightarrow> Str (fold (\<lambda>a b. if str_le a b then b else a) r x))
      | AggMin \<Rightarrow>
          Inr (case ts of [] \<Rightarrow> Null
               | x # r \<Rightarrow> Str (fold (\<lambda>a b. if str_le a b then a else b) r x))
      | AggStd \<Rightarrow> Inl TypeError)"

definition series_reduce :: "aggfun \<Rightarrow> dtype \<Rightarrow> cell list \<Rightarrow> error + cell" where
  "series_reduce f d cells =
     (if is_numeric_dtype d then Inr (reduce_numbers f d cells) else reduce_texts f cells)"

definition agg_dtype :: "aggfun \<Rightarrow> dtype \<Rightarrow> dtype" where
  "agg_dtype f d =
     (case f of AggCount \<Rightarrow> Int64 | AggMean \<Rightarrow> Float64 | AggStd \<Rightarrow> Float64 | _ \<Rightarrow> d)"

text \<open>
  The reductions are the library's.  The aggregation engine takes them as the parameter
  \<open>reduce\<close>: from the function, the dtype of the column and the cells of one group to
  the value of the group, or the error raised; \<open>series_reduce\<close> is the instance used in
  examples.  A reduction of a grouped column goes from the dtype of the column and the
  cells of each group to the dtype and the cells of the aggregated column; it raises when
  the reduction of a group does.
\<close>

type_synonym reduction = "aggfun \<Rightarrow> dtype \<Rightarrow> cell list \<Rightarrow> error + cell"

type_synonym column_agg = "dtype \<Rightarrow> cell list list \<Rightarrow> error + (dtype \<times> cell list)"

definition pd_agg :: "reduction \<Rightarrow> aggfun \<Rightarrow> column_agg" where
  "pd_agg reduce f d groups =
     (case collect (map (reduce f d) groups) of
        Inl e \<Rightarrow> Inl e
      | Inr vs \<Rightarrow> Inr (agg_dtype f d, vs))"

section \<open>The aggregation engine: \<^verbatim>\<open>data_tools.group_by_aggregate\<close>\<close>

text \<open>
  \<^verbatim>\<open>grouped[numeric_cols].agg(agg_function)\<close> hands the name, as the caller wrote it, to
  pandas, which knows more reductions than the six above.  That table of names is the
  parameter \<open>agg_by_name\<close>; \<open>named_agg\<close> is the instance used in examples, which knows the
  six names.  \<^verbatim>\<open>reset_index()\<close> raises when the group column is among the aggregated
  columns ("cannot insert ..., already exists").
\<close>

definition named_agg :: "string \<Rightarrow> column_agg" where
  "named_agg name =
     (if name = ''sum'' then pd_agg series_reduce AggSum
      else if name = ''mean'' then pd_agg series_reduce AggMean
      else if name = ''count'' then pd_agg series_reduce AggCount
      else if name = ''max'' then pd_agg series_reduce AggMax
      else if name = ''min'' then pd_agg series_reduce AggMin
      else if name = ''std'' then pd_agg series_reduce AggStd
      else (\<lambda>d groups. Inl (PandasError name)))"

text \<open>The \<^verbatim>\<open>if\<close>/\<^verbatim>\<open>elif\<close> chain of the single-column path.\<close>

definition single_fun :: "string \<Rightarrow> aggfun option" where
  "single_fun agg_function =
     (let f = lower agg_function in
      if f = ''sum'' then Some AggSum
      else if f = ''mean'' \<or> f = ''average'' then Some AggMean
      else if f = ''count'' then Some AggCount
      else if f = ''max'' then Some AggMax
      else if f = ''min'' then Some AggMin
      else if f = ''std'' \<or> f = ''stddev'' then Some AggStd
      else None)"

text \<open>The chain of the path over all numeric columns.\<close>

definition all_columns_fun ::
  "reduction \<Rightarrow> (string \<Rightarrow> column_agg) \<Rightarrow> string \<Rightarrow> column_agg" where
  "all_columns_fun reduce agg_by_name agg_function =
     (let f = lower agg_function in
      if f = ''sum'' then pd_agg reduce AggSum
      else if f = ''mean'' \<or> f = ''average'' then pd_agg reduce AggMean
      else if f = ''count'' then pd_agg reduce AggCount
      else agg_by_name agg_function)"

text \<open>\<^verbatim>\<open>agg_column and agg_column in dataframe.columns\<close>: the column with its position.\<close>

definition chosen_column :: "table \<Rightarrow> string option \<Rightarrow> (string \<times> nat) option" where
  "chosen_column dataframe agg_column =
     (case agg_column of
        None \<Rightarrow> None
      | Some a \<Rightarrow> (if a = [] then None else map_option (Pair a) (col_idx a (columns dataframe))))"

definition group_cells :: "table \<Rightarrow> nat \<Rightarrow> nat \<Rightarrow> cell \<Rightarrow> cell list" where
  "group_cells t gi ai k = map (\<lambda>r. nth_cell r ai) (filter (\<lambda>r. nth_cell r gi = k) (rows t))"

definition numeric_cols :: "table \<Rightarrow> (string \<times> dtype \<times> nat) list" where
  "numeric_cols t =
     map (\<lambda>((n, d), i). (n, d, i))
         (filter (\<lambda>((n, d), i). is_numeric_dtype d)
                 (zip (columns t) [0..<length (columns t)]))"

definition already_exists :: error where
  "already_exists = GroupByError (PandasError ''cannot insert, already exists'')"

definition group_by_aggregate ::
  "reduction \<Rightarrow> (string \<Rightarrow> column_agg) \<Rightarrow> table \<Rightarrow> string \<Rightarrow> string \<Rightarrow> string option
     \<Rightarrow> error + table" where
  "group_by_aggregate reduce agg_by_name dataframe group_col agg_function agg_column =
     (case col_idx group_col (columns dataframe) of
        None \<Rightarrow> Inl (ColumnNotFound group_col)
      | Some gi \<Rightarrow>
          (let keys = group_keys (col_cells dataframe gi) in
           case chosen_column dataframe agg_column of
             Some (a, ai) \<Rightarrow>
               (case single_fun agg_function of
                  None \<Rightarrow> Inl (GroupByError (UnknownFunction agg_function))
                | Some f \<Rightarrow>
                    (case pd_agg reduce f (col_dtype dataframe ai)
                            (map (group_cells dataframe gi ai) keys) of
                       Inl e \<Rightarrow> Inl (GroupByError e)
                     | Inr (d, vals) \<Rightarrow>
                         (if a = group_col then Inl already_exists
                          else Inr \<lparr>columns = [(group_col, col_dtype dataframe gi), (a, d)],
                                    rows = map (\<lambda>(k, v). [k, v]) (zip keys vals)\<rparr>)))
           | None \<Rightarrow>
               (case collect
                       (map (\<lambda>(n, d, i).
                               map_sum id (Pair n)
                                 (all_columns_fun reduce agg_by_name agg_function d
                                    (map (group_cells dataframe gi i) keys)))
                            (numeric_cols dataframe)) of
                  Inl e \<Rightarrow> Inl (GroupByError e)
                | Inr cols \<Rightarrow>
                    (if group_col \<in> set (map fst (numeric_cols dataframe)) then Inl already_exists
                     else Inr \<lparr>columns = (group_col, col_dtype dataframe gi)
                                          # map (\<lambda>(n, d, vals). (n, d)) cols,
                               rows = map (\<lambda>(j, k). k # map (\<lambda>(n, d, vals). nth_cell vals j) cols)
                                          (zip [0..<length keys] keys)\<rparr>))))"

section \<open>The data quality summaries\<close>

text \<open>
  \<^verbatim>\<open>f"{x:.2f}%"\<close> for the quotient \<open>100 \<sqdot> a / b\<close> of two counts: two decimals, the half
  rounded to even, and \<^verbatim>\<open>nan%\<close> for a table without rows.  The quotient is exact: binary
  rounding is not modelled.
\<close>

definition digit_char :: "int \<Rightarrow> char" where
  "digit_char n =
     (let d = n mod 10 in
      if d = 0 then CHR ''0'' else if d = 1 then CHR ''1'' else if d = 2 then CHR ''2''
      else if d = 3 then CHR ''3'' else if d = 4 then CHR ''4'' else if d = 5 then CHR ''5''
      else if d = 6 then CHR ''6'' else if d = 7 then CHR ''7'' else if d = 8 then CHR ''8''
      else CHR ''9'')"

function show_int :: "int \<Rightarrow> string" where
  "show_int n = (if n < 10 then [digit_char n] else show_int (n div 10) @ [digit_char n])"
  by pat_completeness auto
termination
  by (relation "measure nat") auto

definition percent_2f :: "nat \<Rightarrow> nat \<Rightarrow> string" where
  "percent_2f part whole =
     (let a = int part; b = int whole in
      if b = 0 then ''nan%''
      else
        (let q = (10000 * a) div b;
             r = (10000 * a) mod b;
             h = (if 2 * r > b \<or> (2 * r = b \<and> odd q) then q + 1 else q)
         in show_int (h div 100) @ ''.'' @ [digit_char (h div 10), digit_char h] @ ''%''))"

definition dtype_name :: "dtype \<Rightarrow> string" where
  "dtype_name d = (case d of Int64 \<Rightarrow> ''int64'' | Float64 \<Rightarrow> ''float64'' | Object \<Rightarrow> ''object'')"

text \<open>The dictionary appended to \<^verbatim>\<open>quality_data\<close> for one column, as the row of its nine
  values.\<close>

definition quality_record :: "table \<Rightarrow> string \<Rightarrow> dtype \<Rightarrow> cell list \<Rightarrow> cell list" where
  "quality_record dataframe col d cells =
     (let total = length (rows dataframe);
          null_count = length (filter (\<lambda>c. c = Null) cells);
          non_null_count = count_present cells;
          unique_count = length (remdups (filter (\<lambda>c. c \<noteq> Null) cells));
          duplicate_count = length cells - length (remdups cells)
      in [Str col, Str (dtype_name d), Num (real total), Num (real non_null_count),
          Num (real null_count), Str (percent_2f null_count total), Num (real unique_count),
          Num (real duplicate_count), Str (percent_2f (total - null_count) total)])"

definition quality_columns :: "(string \<times> dtype) list" where
  "quality_columns =
     [(''Column'', Object), (''Data Type'', Object), (''Total Rows'', Int64),
      (''Non-Null Count'', Int64), (''Null Count'', Int64), (''Null Percentage'', Object),
      (''Unique Values'', Int64), (''Duplicates'', Int64), (''Completeness'', Object)]"

text \<open>\<^verbatim>\<open>pd.DataFrame(quality_data)\<close>: the keys of the records are the columns; an empty
  list gives a frame without columns.\<close>

definition quality_frame :: "cell list list \<Rightarrow> table" where
  "quality_frame quality_data =
     (if quality_data = [] then \<lparr>columns = [], rows = []\<rparr>
      else \<lparr>columns = quality_columns, rows = quality_data\<rparr>)"

text \<open>\<^verbatim>\<open>data_tools.get_data_quality_summary\<close>.\<close>

definition get_data_quality_summary :: "table \<Rightarrow> table" where
  "get_data_quality_summary dataframe =
     quality_frame
       (map (\<lambda>((col, d), i). quality_record dataframe col d (col_cells dataframe i))
            (zip (columns dataframe) [0..<length (columns dataframe)]))"

text \<open>
  \<^verbatim>\<open>advanced_data_tools.get_data_quality_summary\<close>: for a numeric column it also computes
  \<^verbatim>\<open>min_val\<close>, \<^verbatim>\<open>max_val\<close> (through \<^verbatim>\<open>.mean()\<close>) and \<^verbatim>\<open>mean_val\<close>, which can raise in
  principle and are not used afterwards.
\<close>

definition advanced_record :: "table \<Rightarrow> string \<Rightarrow> dtype \<Rightarrow> cell list \<Rightarrow> error + cell list" where
  "advanced_record dataframe col d cells =
     (if is_numeric_dtype d then
        (case series_reduce AggMin d cells of
           Inl e \<Rightarrow> Inl e
         | Inr min_val \<Rightarrow>
             (case series_reduce AggMean d cells of
                Inl e \<Rightarrow> Inl e
              | Inr max_val \<Rightarrow>
                  (case series_reduce AggMean d cells of
                     Inl e \<Rightarrow> Inl e
                   | Inr mean_val \<Rightarrow> Inr (quality_record dataframe col d cells))))
      else Inr (quality_record dataframe col d cells))"

definition get_data_quality_summary_advanced :: "table \<Rightarrow> error + table" where
  "get_data_quality_summary_advanced dataframe =
     (case collect
             (map (\<lambda>((col, d), i). advanced_record dataframe col d (col_cells dataframe i))
                  (zip (columns dataframe) [0..<length (columns dataframe)])) of
        Inl e \<Rightarrow> Inl e
      | Inr quality_data \<Rightarrow> Inr (quality_frame quality_data))"

section \<open>Claims about the query executor\<close>

text \<open>
  C1.  The claim: \<^verbatim>\<open>execute\<close> applies ORDER BY, then LIMIT, then WHERE, and on the rows
  \<^verbatim>\<open>{Amount:10},{Amount:50},{Amount:30}\<close> the command \<^verbatim>\<open>order by Amount desc limit 2\<close>
  returns the rows 50 and 30.  The code looks the column up under the name it reads from
  the lower-cased command, \<^verbatim>\<open>amount\<close>, which is not a column of the table: the ORDER BY
  block is skipped, and LIMIT keeps the first two rows in their original order, 10 and 50.
\<close>

theorem execute_order_limit_capitalised_column:
  "execute_complex_query sorter
     \<lparr>columns = [(''Amount'', Int64)], rows = [[Num 10], [Num 50], [Num 30]]\<rparr>
     ''order by Amount desc limit 2''
   = Inr \<lparr>columns = [(''Amount'', Int64)], rows = [[Num 10], [Num 50]]\<rparr>"
  by code_simp

text \<open>The order of the keys: \<open>cell_le\<close> is a linear order, numbers before texts, a missing
  cell last.\<close>

lemma of_char_less_cases:
  "a \<noteq> b \<Longrightarrow> (of_char a :: nat) < of_char b \<or> (of_char b :: nat) < of_char a"
  by (metis char_of_char linorder_neqE_nat)

lemma str_le_Nil: "str_le s [] = (s = [])"
  by (cases s) auto

lemma str_le_total: "str_le s t \<or> str_le t s"
  using of_char_less_cases by (induction s t rule: str_le.induct) auto

lemma str_le_antisym: "str_le s t \<Longrightarrow> str_le t s \<Longrightarrow> s = t"
  by (induction s t rule: str_le.induct) (auto simp: str_le_Nil split: if_splits)

lemma str_le_trans: "str_le s t \<Longrightarrow> str_le t u \<Longrightarrow> str_le s u"
proof (induction s t arbitrary: u rule: str_le.induct)
  case (1 t)
  then show ?case by simp
next
  case (2 a s)
  then show ?case by simp
next
  case (3 a s b t)
  then show ?case by (cases u) (auto split: if_splits)
qed

lemma cell_le_total: "cell_le a b \<or> cell_le b a"
  using str_le_total by (cases a; cases b) auto

lemma cell_le_antisym: "cell_le a b \<Longrightarrow> cell_le b a \<Longrightarrow> a = b"
  using str_le_antisym by (cases a; cases b) auto

lemma cell_le_trans: "cell_le a b \<Longrightarrow> cell_le b c \<Longrightarrow> cell_le a c"
  using str_le_trans by (cases a; cases b; cases c) auto

lemma set_insert_key: "set (insert_key k xs) = insert k (set xs)"
  by (induction xs) auto

lemma sorted_insert_key:
  "sorted_wrt cell_le xs \<Longrightarrow> sorted_wrt cell_le (insert_key k xs)"
proof (induction xs)
  case Nil
  then show ?case by simp
next
  case (Cons x xs)
  show ?case
  proof (cases "cell_le k x")
    case True
    with Cons.prems show ?thesis
      by (auto intro: cell_le_trans)
  next
    case False
    then have "cell_le x k"
      using cell_le_total by blast
    with Cons False show ?thesis
      by (auto simp: set_insert_key)
  qed
qed

lemma sorted_group_keys: "sorted_wrt cell_le (group_keys cs)"
proof -
  have "sorted_wrt cell_le (foldr insert_key ks [])" for ks
    by (induction ks) (auto intro: sorted_insert_key)
  then show ?thesis
    by (simp add: group_keys_def)
qed

lemma sorted_keys_unique:
  "sorted_wrt cell_le xs \<Longrightarrow> distinct xs \<Longrightarrow> sorted_wrt cell_le ys \<Longrightarrow> distinct ys
     \<Longrightarrow> set xs = set ys \<Longrightarrow> xs = ys"
proof (induction xs arbitrary: ys)
  case Nil
  then show ?case by simp
next
  case (Cons x xs)
  from Cons.prems(5) obtain y ys' where ys: "ys = y # ys'"
    by (cases ys) auto
  have "x \<in> set (y # ys')" and "y \<in> set (x # xs)"
    using Cons.prems(5) ys by auto
  then have "cell_le y x" and "cell_le x y"
    using Cons.prems(1,3) ys cell_le_total by auto
  then have xy: "x = y"
    using cell_le_antisym by blast
  with Cons.prems ys have "set xs = set ys'"
    by auto
  with Cons.IH [of ys'] Cons.prems ys xy show ?case
    by simp
qed

text \<open>Grouping: the keys are the distinct cells of the column that are not missing, in
  ascending order; they depend on the set of the cells only.\<close>

lemma distinct_insert_key: "distinct (insert_key k xs) = (k \<notin> set xs \<and> distinct xs)"
  by (induction xs) (auto simp: set_insert_key)

lemma set_foldr_insert_key: "set (foldr insert_key ks []) = set ks"
  by (induction ks) (auto simp: set_insert_key)

lemma distinct_foldr_insert_key: "distinct ks \<Longrightarrow> distinct (foldr insert_key ks [])"
  by (induction ks) (auto simp: distinct_insert_key set_foldr_insert_key)

lemma set_group_keys: "set (group_keys cs) = set cs - {Null}"
  by (auto simp: group_keys_def set_foldr_insert_key)

lemma distinct_group_keys: "distinct (group_keys cs)"
  by (simp add: group_keys_def distinct_foldr_insert_key)

lemma group_keys_cong: "set cs = set cs' \<Longrightarrow> group_keys cs = group_keys cs'"
  by (rule sorted_keys_unique)
    (simp_all add: sorted_group_keys distinct_group_keys set_group_keys)

text \<open>Sorting permutes the rows, so it changes neither the keys nor the size of a group.\<close>

lemma mset_insert_row: "mset (insert_row i r xs) = add_mset r (mset xs)"
  by (induction xs) auto

lemma mset_sort_rows: "mset (sort_rows i rs) = mset rs"
  by (induction rs) (auto simp: sort_rows_def mset_insert_row)

lemma group_size_mset:
  "group_size t i k = size (filter_mset (\<lambda>row. nth_cell row i = k) (mset (rows t)))"
  by (simp add: group_size_def flip: mset_filter)

lemma col_cells_mset: "set (col_cells t i) = (\<lambda>row. nth_cell row i) ` set_mset (mset (rows t))"
  by (simp add: col_cells_def)

lemma sort_values_mset:
  assumes "\<And>j rs. mset (sorter j rs) = mset rs" and "sort_values sorter t i a = Inr r"
  shows "mset (rows r) = mset (rows t)"
  using assms by (auto simp: sort_values_def Let_def split: if_splits)

lemma order_step_mset:
  assumes "\<And>j rs. mset (sorter j rs) = mset rs" and "order_step sorter t ql = Inr r"
  shows "mset (rows r) = mset (rows t)"
  using assms(2) sort_values_mset [OF assms(1)]
  by (auto simp: order_step_def split: option.splits)

lemma sort_values_columns: "sort_values sorter t i a = Inr r \<Longrightarrow> columns r = columns t"
  by (auto simp: sort_values_def Let_def split: if_splits)

lemma order_step_columns: "order_step sorter t ql = Inr r \<Longrightarrow> columns r = columns t"
  by (auto simp: order_step_def split: option.splits dest: sort_values_columns)

lemma limit_step_columns: "limit_step t ql = Inr r \<Longrightarrow> columns r = columns t"
  by (auto simp: limit_step_def head_def split: option.splits)

lemma where_step_columns: "where_step t ql = Inr r \<Longrightarrow> columns r = columns t"
  by (auto simp: where_step_def select_rows_def split: if_splits option.splits sum.splits)

lemma before_group_columns: "before_group sorter t q = Inr r \<Longrightarrow> columns r = columns t"
  by (auto simp: before_group_def split: sum.splits
      dest!: order_step_columns limit_step_columns where_step_columns)

text \<open>Cutting and filtering only take rows away.\<close>

lemma filter_take_le: "length (filter P (take n xs)) \<le> length (filter P xs)"
proof -
  have "length (filter P xs) = length (filter P (take n xs)) + length (filter P (drop n xs))"
    by (metis append_take_drop_id filter_append length_append)
  then show ?thesis
    by simp
qed

lemma filter_selected_le:
  "length (filter P (map snd (filter fst (zip bm xs)))) \<le> length (filter P xs)"
proof (induction xs arbitrary: bm)
  case Nil
  then show ?case by simp
next
  case (Cons x xs)
  show ?case
  proof (cases bm)
    case Nil
    then show ?thesis by simp
  next
    case (Cons b bs)
    with Cons.IH [of bs] show ?thesis
      by (auto intro: le_SucI)
  qed
qed

lemma limit_step_group_size:
  "limit_step t ql = Inr r \<Longrightarrow> group_size r i k \<le> group_size t i k"
  by (auto simp: limit_step_def head_def group_size_def filter_take_le split: option.splits)

lemma where_step_rows:
  "where_step t ql = Inr r \<Longrightarrow>
     rows r = rows t \<or> (\<exists>bm. rows r = map snd (filter fst (zip bm (rows t))))"
  by (auto simp: where_step_def select_rows_def split: if_splits option.splits sum.splits)

lemma where_step_group_size:
  assumes "where_step t ql = Inr r"
  shows "group_size r i k \<le> group_size t i k"
proof -
  from where_step_rows [OF assms] show ?thesis
  proof
    assume "rows r = rows t"
    then show ?thesis
      by (simp add: group_size_def)
  next
    assume "\<exists>bm. rows r = map snd (filter fst (zip bm (rows t)))"
    then obtain bm where "rows r = map snd (filter fst (zip bm (rows t)))" ..
    then show ?thesis
      unfolding group_size_def by (simp only: filter_selected_le)
  qed
qed

lemma order_step_group_size:
  assumes "\<And>j rs. mset (sorter j rs) = mset rs" and "order_step sorter t ql = Inr r"
  shows "group_size r i k = group_size t i k"
  using order_step_mset [OF assms] by (simp add: group_size_mset)

lemma before_group_group_size:
  assumes "\<And>j rs. mset (sorter j rs) = mset rs" and "before_group sorter t q = Inr r"
  shows "group_size r i k \<le> group_size t i k"
proof -
  from assms(2) obtain r1 r2 where 1: "order_step sorter t (lower q) = Inr r1"
    and 2: "limit_step r1 (lower q) = Inr r2" and 3: "where_step r2 (lower q) = Inr r"
    by (auto simp: before_group_def split: sum.splits)
  from order_step_group_size [OF assms(1) 1] limit_step_group_size [OF 2]
    where_step_group_size [OF 3]
  show ?thesis
    by (metis le_trans)
qed

lemma before_group_sort_only:
  assumes "\<And>j rs. mset (sorter j rs) = mset rs" and "before_group sorter t q = Inr r"
    and "re_search limit_re (lower q) = None" and "\<not> contains_str ''where'' (lower q)"
  shows "mset (rows r) = mset (rows t)"
proof -
  from assms(2,3,4) have "order_step sorter t (lower q) = Inr r"
    by (auto simp: before_group_def limit_step_def where_step_def split: sum.splits)
  then show ?thesis
    by (rule order_step_mset [OF assms(1)])
qed

text \<open>
  C2 as stated: with a GROUP BY clause naming a known column, each group's count is the
  group's size in the input table, whatever other clause the command has.  It fails: the
  GROUP BY block groups \<^verbatim>\<open>result\<close>, the table left by the ORDER BY, LIMIT and WHERE blocks.
  With \<^verbatim>\<open>limit 1\<close> the group \<^verbatim>\<open>A\<close> is counted once though the input table has two such
  rows, and the group \<^verbatim>\<open>B\<close> is absent; with \<^verbatim>\<open>where amount > 30\<close> the group \<^verbatim>\<open>A\<close> is
  absent; the third equation gives the true group sizes.
\<close>

theorem group_by_counts_input_table_counterexample:
  "execute_complex_query sort_rows
     \<lparr>columns = [(''amount'', Int64), (''status'', Object)],
      rows = [[Num 10, Str ''A''], [Num 50, Str ''B''], [Num 30, Str ''A'']]\<rparr>
     ''limit 1 group by status''
   = Inr \<lparr>columns = [(''status'', Object), (''count'', Int64)], rows = [[Str ''A'', Num 1]]\<rparr>
   \<and> execute_complex_query sort_rows
     \<lparr>columns = [(''amount'', Int64), (''status'', Object)],
      rows = [[Num 10, Str ''A''], [Num 50, Str ''B''], [Num 30, Str ''A'']]\<rparr>
     ''where amount > 30 group by status''
   = Inr \<lparr>columns = [(''status'', Object), (''count'', Int64)],
          rows = [[Str ''B'', Num 1]]\<rparr>
   \<and> groupby_size
     \<lparr>columns = [(''amount'', Int64), (''status'', Object)],
      rows = [[Num 10, Str ''A''], [Num 50, Str ''B''], [Num 30, Str ''A'']]\<rparr>
     ''status'' 1
   = Inr \<lparr>columns = [(''status'', Object), (''count'', Int64)],
          rows = [[Str ''A'', Num 2], [Str ''B'', Num 1]]\<rparr>"
  by code_simp

text \<open>
  The column is looked up under the word read from the lower-cased command, as in C1: a
  GROUP BY clause naming a column with a capital letter finds no column, and the table
  comes back ungrouped.  This is the slip reported under C1; the amended claim below is
  about the clauses whose lower-cased word is a column of the table.
\<close>

lemma execute_group_by_capitalised_column:
  "execute_complex_query sorter
     \<lparr>columns = [(''Amount'', Int64), (''Status'', Object)],
      rows = [[Num 10, Str ''A''], [Num 50, Str ''B''], [Num 30, Str ''A'']]\<rparr>
     ''group by Status''
   = Inr \<lparr>columns = [(''Amount'', Int64), (''Status'', Object)],
          rows = [[Num 10, Str ''A''], [Num 50, Str ''B''], [Num 30, Str ''A'']]\<rparr>"
  by code_simp

text \<open>
  C2, amended: for a command with a GROUP BY clause whose column word, read from the
  lower-cased command, is a column of the table (not itself called \<^verbatim>\<open>count\<close>), when the
  earlier blocks do not raise and leave the table \<open>r\<close>: the result is the table of the
  group column and \<^verbatim>\<open>count\<close> with one row per distinct key of \<open>r\<close> that is not missing,
  keys ascending, and the count of a key is the number of rows of \<open>r\<close> with that key; no
  count exceeds the size of the group in the input table; and for a command without
  LIMIT clause and without the word \<^verbatim>\<open>where\<close> the result is the table of the true group
  sizes of the input table, whatever ORDER BY clause the command has.  The sorting
  routine is any that permutes the rows.
\<close>

theorem execute_group_by_counts_remaining_rows:
  assumes "\<And>j rs. mset (sorter j rs) = mset rs"
    and "re_search group_re (lower q) = Some m"
    and "match_group m 1 = Some col"
    and "col_idx col (columns t) = Some i"
    and "col \<noteq> ''count''"
    and "before_group sorter t q = Inr r"
  shows "execute_complex_query sorter t q =
           Inr \<lparr>columns = [(col, col_dtype t i), (''count'', Int64)],
                rows = map (\<lambda>k. [k, Num (real (length (filter (\<lambda>row. nth_cell row i = k) (rows r))))])
                           (group_keys (col_cells r i))\<rparr>
         \<and> distinct (group_keys (col_cells r i))
         \<and> sorted_wrt cell_le (group_keys (col_cells r i))
         \<and> set (group_keys (col_cells r i)) = set (col_cells r i) - {Null}
         \<and> (\<forall>k. length (filter (\<lambda>row. nth_cell row i = k) (rows r))
                  \<le> length (filter (\<lambda>row. nth_cell row i = k) (rows t)))
         \<and> (re_search limit_re (lower q) = None \<and> \<not> contains_str ''where'' (lower q) \<longrightarrow>
              execute_complex_query sorter t q =
                Inr \<lparr>columns = [(col, col_dtype t i), (''count'', Int64)],
                     rows = map (\<lambda>k. [k, Num (real (length (filter (\<lambda>row. nth_cell row i = k) (rows t))))])
                                (group_keys (col_cells t i))\<rparr>)"
proof -
  have c: "columns r = columns t"
    using assms(6) by (rule before_group_columns)
  have "execute_complex_query sorter t q = groupby_size r col i"
    using assms(2-6) c by (simp add: execute_complex_query_def group_step_def)
  then have e: "execute_complex_query sorter t q =
      Inr \<lparr>columns = [(col, col_dtype t i), (''count'', Int64)],
           rows = map (\<lambda>k. [k, Num (real (length (filter (\<lambda>row. nth_cell row i = k) (rows r))))])
                      (group_keys (col_cells r i))\<rparr>"
    using assms(5) c by (simp add: groupby_size_def group_size_def col_dtype_def)
  have le: "\<forall>k. length (filter (\<lambda>row. nth_cell row i = k) (rows r))
                  \<le> length (filter (\<lambda>row. nth_cell row i = k) (rows t))"
    using before_group_group_size [OF assms(1) assms(6)] by (simp add: group_size_def)
  have s: "execute_complex_query sorter t q =
                Inr \<lparr>columns = [(col, col_dtype t i), (''count'', Int64)],
                     rows = map (\<lambda>k. [k, Num (real (length (filter (\<lambda>row. nth_cell row i = k) (rows t))))])
                                (group_keys (col_cells t i))\<rparr>"
    if "re_search limit_re (lower q) = None" and "\<not> contains_str ''where'' (lower q)"
  proof -
    from before_group_sort_only [OF assms(1) assms(6) that]
    have ms: "mset (rows r) = mset (rows t)" .
    then have "set (col_cells r i) = set (col_cells t i)"
      by (simp add: col_cells_mset)
    then have k: "group_keys (col_cells r i) = group_keys (col_cells t i)"
      by (rule group_keys_cong)
    have "length (filter (\<lambda>row. nth_cell row i = k) (rows r))
          = length (filter (\<lambda>row. nth_cell row i = k) (rows t))" for k
      using ms group_size_mset [of r i k] group_size_mset [of t i k]
      by (simp add: group_size_def)
    with e k show ?thesis
      by simp
  qed
  from e le s show ?thesis
    using distinct_group_keys sorted_group_keys set_group_keys by blast
qed

theorem execute_group_by_counts_remaining_rows_witness:
  "(\<forall>j rs. mset (sort_rows j rs) = mset rs)
   \<and> re_search group_re (lower ''sort by amount desc group by status'') = Some [(1, ''status'')]
   \<and> re_search group_re (lower ''where amount >= 30 group by status'') = Some [(1, ''status'')]
   \<and> match_group [(1, ''status'')] 1 = Some ''status''
   \<and> col_idx ''status'' (columns \<lparr>columns = [(''amount'', Int64), (''status'', Object)],
          rows = [[Num 10, Str ''A''], [Num 50, Str ''B''], [Num 30, Str ''A'']]\<rparr>) = Some 1
   \<and> ''status'' \<noteq> ''count''
   \<and> before_group sort_rows \<lparr>columns = [(''amount'', Int64), (''status'', Object)],
          rows = [[Num 10, Str ''A''], [Num 50, Str ''B''], [Num 30, Str ''A'']]\<rparr> ''sort by amount desc group by status'' = Inr \<lparr>columns = [(''amount'', Int64), (''status'', Object)],
          rows = [[Num 50, Str ''B''], [Num 30, Str ''A''], [Num 10, Str ''A'']]\<rparr>
   \<and> before_group sort_rows \<lparr>columns = [(''amount'', Int64), (''status'', Object)],
          rows = [[Num 10, Str ''A''], [Num 50, Str ''B''], [Num 30, Str ''A'']]\<rparr> ''where amount >= 30 group by status'' = Inr \<lparr>columns = [(''amount'', Int64), (''status'', Object)],
          rows = [[Num 50, Str ''B''], [Num 30, Str ''A'']]\<rparr>
   \<and> re_search limit_re (lower ''sort by amount desc group by status'') = None
   \<and> \<not> contains_str ''where'' (lower ''sort by amount desc group by status'')
   \<and> execute_complex_query sort_rows \<lparr>columns = [(''amount'', Int64), (''status'', Object)],
          rows = [[Num 10, Str ''A''], [Num 50, Str ''B''], [Num 30, Str ''A'']]\<rparr> ''sort by amount desc group by status''
       = Inr \<lparr>columns = [(''status'', Object), (''count'', Int64)],
              rows = [[Str ''A'', Num 2], [Str ''B'', Num 1]]\<rparr>
   \<and> execute_complex_query sort_rows \<lparr>columns = [(''amount'', Int64), (''status'', Object)],
          rows = [[Num 10, Str ''A''], [Num 50, Str ''B''], [Num 30, Str ''A'']]\<rparr> ''where amount >= 30 group by status''
       = Inr \<lparr>columns = [(''status'', Object), (''count'', Int64)],
              rows = [[Str ''A'', Num 1], [Str ''B'', Num 1]]\<rparr>"
proof -
  let ?t = "\<lparr>columns = [(''amount'', Int64), (''status'', Object)],
          rows = [[Num 10, Str ''A''], [Num 50, Str ''B''], [Num 30, Str ''A'']]\<rparr>"
  let ?r1 = "\<lparr>columns = [(''amount'', Int64), (''status'', Object)],
          rows = [[Num 50, Str ''B''], [Num 30, Str ''A''], [Num 10, Str ''A'']]\<rparr>"
  let ?r2 = "\<lparr>columns = [(''amount'', Int64), (''status'', Object)],
          rows = [[Num 50, Str ''B''], [Num 30, Str ''A'']]\<rparr>"
  let ?q1 = "''sort by amount desc group by status''"
  let ?q2 = "''where amount >= 30 group by status''"
  have p: "mset (sort_rows j rs) = mset rs" for j rs
    by (rule mset_sort_rows)
  have g1: "re_search group_re (lower ?q1) = Some [(1, ''status'')]"
    by code_simp
  have g2: "re_search group_re (lower ?q2) = Some [(1, ''status'')]"
    by code_simp
  have h2: "match_group [(1, ''status'')] 1 = Some ''status''"
    by code_simp
  have h3: "col_idx ''status'' (columns ?t) = Some 1"
    by code_simp
  have h4: "''status'' \<noteq> ''count''"
    by simp
  have b1: "before_group sort_rows ?t ?q1 = Inr ?r1"
    by code_simp
  have b2: "before_group sort_rows ?t ?q2 = Inr ?r2"
    by code_simp
  have n1: "re_search limit_re (lower ?q1) = None"
    by code_simp
  have n2: "\<not> contains_str ''where'' (lower ?q1)"
    by code_simp
  have v1: "\<lparr>columns = [(''status'', col_dtype ?t 1), (''count'', Int64)],
             rows = map (\<lambda>k. [k, Num (real (length (filter (\<lambda>row. nth_cell row 1 = k) (rows ?t))))])
                        (group_keys (col_cells ?t 1))\<rparr>
            = \<lparr>columns = [(''status'', Object), (''count'', Int64)],
               rows = [[Str ''A'', Num 2], [Str ''B'', Num 1]]\<rparr>"
    by code_simp
  have v2: "\<lparr>columns = [(''status'', col_dtype ?t 1), (''count'', Int64)],
             rows = map (\<lambda>k. [k, Num (real (length (filter (\<lambda>row. nth_cell row 1 = k) (rows ?r2))))])
                        (group_keys (col_cells ?r2 1))\<rparr>
            = \<lparr>columns = [(''status'', Object), (''count'', Int64)],
               rows = [[Str ''A'', Num 1], [Str ''B'', Num 1]]\<rparr>"
    by code_simp
  from execute_group_by_counts_remaining_rows [OF p g1 h2 h3 h4 b1] n1 n2
  have "execute_complex_query sort_rows ?t ?q1 =
          Inr \<lparr>columns = [(''status'', col_dtype ?t 1), (''count'', Int64)],
             rows = map (\<lambda>k. [k, Num (real (length (filter (\<lambda>row. nth_cell row 1 = k) (rows ?t))))])
                        (group_keys (col_cells ?t 1))\<rparr>"
    by blast
  then have e1: "execute_complex_query sort_rows ?t ?q1
       = Inr \<lparr>columns = [(''status'', Object), (''count'', Int64)],
              rows = [[Str ''A'', Num 2], [Str ''B'', Num 1]]\<rparr>"
    by (simp only: v1)
  from execute_group_by_counts_remaining_rows [OF p g2 h2 h3 h4 b2]
  have "execute_complex_query sort_rows ?t ?q2 =
          Inr \<lparr>columns = [(''status'', col_dtype ?t 1), (''count'', Int64)],
             rows = map (\<lambda>k. [k, Num (real (length (filter (\<lambda>row. nth_cell row 1 = k) (rows ?r2))))])
                        (group_keys (col_cells ?r2 1))\<rparr>"
    by (rule conjunct1)
  then have e2: "execute_complex_query sort_rows ?t ?q2
       = Inr \<lparr>columns = [(''status'', Object), (''count'', Int64)],
              rows = [[Str ''A'', Num 1], [Str ''B'', Num 1]]\<rparr>"
    by (simp only: v2)
  from p g1 g2 h2 h3 h4 b1 b2 n1 n2 e1 e2 show ?thesis
    by (intro conjI allI)
qed


section \<open>Claims about the query parser\<close>

text \<open>The loop over the phrasings appends, phrasing after phrasing, what each of them
  contributes.\<close>

lemma where_loop_captured:
  "where_loop ps ql cols acc = Inr cs \<Longrightarrow>
     cs = acc @ concat (map (\<lambda>(p, ex). captured p ex ql cols) ps)"
proof (induction ps arbitrary: acc)
  case Nil
  then show ?case by simp
next
  case (Cons pe ps)
  obtain p ex where pe: "pe = (p, ex)" by (cases pe)
  show ?case
  proof (cases "re_search p ql")
    case None
    with Cons pe show ?thesis by (simp add: captured_def)
  next
    case (Some m)
    show ?thesis
    proof (cases "ex m")
      case (Inl e)
      with Cons.prems pe Some show ?thesis by simp
    next
      case (Inr c)
      with Cons.prems pe Some
      have "where_loop ps ql cols (if known_column cols c then acc @ [c] else acc) = Inr cs"
        by simp
      from Cons.IH [OF this] pe Some Inr show ?thesis
        by (simp add: captured_def)
    qed
  qed
qed

lemma captured_length: "length (captured p ex ql cols) \<le> 1"
  by (simp add: captured_def split: option.splits sum.splits)

lemma captured_known: "list_all (known_column cols) (captured p ex ql cols)"
  by (simp add: captured_def split: option.splits sum.splits)

text \<open>
  C4 as stated: the parser never returns two or more WHERE conditions.  It fails: the loop
  over the four phrasings has no \<^verbatim>\<open>break\<close>, so a command with a symbolic comparison and
  an \<^verbatim>\<open>is\<close> fragment yields both conditions.
\<close>

theorem parse_two_conditions_counterexample:
  "parse_natural_language_query ''where a > 1 where b is x'' [''a'', ''b'']
   = Inr \<lparr>select_columns = None,
          where_conditions =
            [\<lparr>column = Some ''a'', operator = Some ''>'', operand = VNum 1\<rparr>,
             \<lparr>column = Some ''b'', operator = Some ''=='', operand = VStr ''x''\<rparr>],
          group_by = None, order_by = None, order_direction = ''asc'',
          limit = None, aggregate = None\<rparr>"
  by code_simp

text \<open>
  C4, amended: when the parser returns, the conditions of the Operation are, in this
  order, what the symbolic comparison, the \<^verbatim>\<open>is\<close> phrasing, the \<^verbatim>\<open>greater than\<close> phrasing
  and the \<^verbatim>\<open>less than\<close> phrasing contribute: each at most one condition, read from the
  leftmost fragment of that phrasing and kept when its column is known.  So fragments of
  different phrasings are all kept, a repeated fragment of one phrasing is not, and an
  Operation holds at most four conditions, each naming a known column.
\<close>

theorem parse_at_most_one_condition_per_phrasing:
  assumes "parse_natural_language_query query cols = Inr ops"
  shows "where_conditions ops
           = captured where_symbolic extract_symbolic (lower query) cols
             @ captured where_is extract_is (lower query) cols
             @ captured where_greater (extract_than ''>'') (lower query) cols
             @ captured where_less (extract_than ''<'') (lower query) cols
         \<and> length (captured where_symbolic extract_symbolic (lower query) cols) \<le> 1
         \<and> length (captured where_is extract_is (lower query) cols) \<le> 1
         \<and> length (captured where_greater (extract_than ''>'') (lower query) cols) \<le> 1
         \<and> length (captured where_less (extract_than ''<'') (lower query) cols) \<le> 1
         \<and> length (where_conditions ops) \<le> 4
         \<and> list_all (known_column cols) (where_conditions ops)"
proof -
  from assms obtain conds where w: "where_loop where_patterns (lower query) cols [] = Inr conds"
    and c: "where_conditions ops = conds"
    by (auto simp: parse_natural_language_query_def Let_def split: sum.splits)
  from where_loop_captured [OF w]
  have e: "conds = captured where_symbolic extract_symbolic (lower query) cols
             @ captured where_is extract_is (lower query) cols
             @ captured where_greater (extract_than ''>'') (lower query) cols
             @ captured where_less (extract_than ''<'') (lower query) cols"
    by (simp add: where_patterns_def)
  have l: "length conds \<le> 4"
    using captured_length [of where_symbolic extract_symbolic "lower query" cols]
      captured_length [of where_is extract_is "lower query" cols]
      captured_length [of where_greater "extract_than ''>''" "lower query" cols]
      captured_length [of where_less "extract_than ''<''" "lower query" cols]
    by (simp add: e)
  have k: "list_all (known_column cols) conds"
    by (simp add: e captured_known)
  from e l k c show ?thesis
    by (intro conjI captured_length) simp_all
qed

theorem parse_at_most_one_condition_per_phrasing_witness:
  "parse_natural_language_query ''Where a > 1 where b > 2 where a greater than 3 where a less than 9 where c is x''
     [''a'', ''b'', ''c'']
   = Inr \<lparr>select_columns = None,
          where_conditions =
            [\<lparr>column = Some ''a'', operator = Some ''>'', operand = VNum 1\<rparr>,
             \<lparr>column = Some ''c'', operator = Some ''=='', operand = VStr ''x''\<rparr>,
             \<lparr>column = Some ''a'', operator = Some ''>'', operand = VNum 3\<rparr>,
             \<lparr>column = Some ''a'', operator = Some ''<'', operand = VNum 9\<rparr>],
          group_by = None, order_by = None, order_direction = ''asc'',
          limit = None, aggregate = None\<rparr>
   \<and> captured where_symbolic extract_symbolic (lower ''Where a > 1 where b > 2 where a greater than 3 where a less than 9 where c is x'') [''a'', ''b'', ''c'']
       = [\<lparr>column = Some ''a'', operator = Some ''>'', operand = VNum 1\<rparr>]
   \<and> captured where_is extract_is (lower ''Where a > 1 where b > 2 where a greater than 3 where a less than 9 where c is x'') [''a'', ''b'', ''c'']
       = [\<lparr>column = Some ''c'', operator = Some ''=='', operand = VStr ''x''\<rparr>]
   \<and> captured where_greater (extract_than ''>'') (lower ''Where a > 1 where b > 2 where a greater than 3 where a less than 9 where c is x'') [''a'', ''b'', ''c'']
       = [\<lparr>column = Some ''a'', operator = Some ''>'', operand = VNum 3\<rparr>]
   \<and> captured where_less (extract_than ''<'') (lower ''Where a > 1 where b > 2 where a greater than 3 where a less than 9 where c is x'') [''a'', ''b'', ''c'']
       = [\<lparr>column = Some ''a'', operator = Some ''<'', operand = VNum 9\<rparr>]
   \<and> where_conditions \<lparr>select_columns = None,
          where_conditions =
            [\<lparr>column = Some ''a'', operator = Some ''>'', operand = VNum 1\<rparr>,
             \<lparr>column = Some ''c'', operator = Some ''=='', operand = VStr ''x''\<rparr>,
             \<lparr>column = Some ''a'', operator = Some ''>'', operand = VNum 3\<rparr>,
             \<lparr>column = Some ''a'', operator = Some ''<'', operand = VNum 9\<rparr>],
          group_by = None, order_by = None, order_direction = ''asc'',
          limit = None, aggregate = None\<rparr>
       = [\<lparr>column = Some ''a'', operator = Some ''>'', operand = VNum 1\<rparr>]
         @ [\<lparr>column = Some ''c'', operator = Some ''=='', operand = VStr ''x''\<rparr>]
         @ [\<lparr>column = Some ''a'', operator = Some ''>'', operand = VNum 3\<rparr>]
         @ [\<lparr>column = Some ''a'', operator = Some ''<'', operand = VNum 9\<rparr>]"
proof -
  let ?q = "''Where a > 1 where b > 2 where a greater than 3 where a less than 9 where c is x''"
  let ?cols = "[''a'', ''b'', ''c'']"
  let ?ops = "\<lparr>select_columns = None,
          where_conditions =
            [\<lparr>column = Some ''a'', operator = Some ''>'', operand = VNum 1\<rparr>,
             \<lparr>column = Some ''c'', operator = Some ''=='', operand = VStr ''x''\<rparr>,
             \<lparr>column = Some ''a'', operator = Some ''>'', operand = VNum 3\<rparr>,
             \<lparr>column = Some ''a'', operator = Some ''<'', operand = VNum 9\<rparr>],
          group_by = None, order_by = None, order_direction = ''asc'',
          limit = None, aggregate = None\<rparr>"
  have h: "parse_natural_language_query ?q ?cols = Inr ?ops"
    by code_simp
  have c1: "captured where_symbolic extract_symbolic (lower ?q) ?cols
       = [\<lparr>column = Some ''a'', operator = Some ''>'', operand = VNum 1\<rparr>]"
    by code_simp
  have c2: "captured where_is extract_is (lower ?q) ?cols
       = [\<lparr>column = Some ''c'', operator = Some ''=='', operand = VStr ''x''\<rparr>]"
    by code_simp
  have c3: "captured where_greater (extract_than ''>'') (lower ?q) ?cols
       = [\<lparr>column = Some ''a'', operator = Some ''>'', operand = VNum 3\<rparr>]"
    by code_simp
  have c4: "captured where_less (extract_than ''<'') (lower ?q) ?cols
       = [\<lparr>column = Some ''a'', operator = Some ''<'', operand = VNum 9\<rparr>]"
    by code_simp
  from parse_at_most_one_condition_per_phrasing [OF h]
  have "where_conditions ?ops
           = captured where_symbolic extract_symbolic (lower ?q) ?cols
             @ captured where_is extract_is (lower ?q) ?cols
             @ captured where_greater (extract_than ''>'') (lower ?q) ?cols
             @ captured where_less (extract_than ''<'') (lower ?q) ?cols"
    by (rule conjunct1)
  then have "where_conditions ?ops
       = [\<lparr>column = Some ''a'', operator = Some ''>'', operand = VNum 1\<rparr>]
         @ [\<lparr>column = Some ''c'', operator = Some ''=='', operand = VStr ''x''\<rparr>]
         @ [\<lparr>column = Some ''a'', operator = Some ''>'', operand = VNum 3\<rparr>]
         @ [\<lparr>column = Some ''a'', operator = Some ''<'', operand = VNum 9\<rparr>]"
    by (simp only: c1 c2 c3 c4)
  with h c1 c2 c3 c4 show ?thesis
    by (intro conjI)
qed


section \<open>Claims about the condition evaluator\<close>

text \<open>Masks have one entry per row, and the loop of \<^verbatim>\<open>multi_condition_filter\<close> folds them
  position by position.\<close>

lemma collect_length: "collect xs = Inr ys \<Longrightarrow> length ys = length xs"
proof (induction xs arbitrary: ys)
  case Nil
  then show ?case by simp
next
  case (Cons x xs)
  then show ?case by (cases x) (auto split: sum.splits)
qed

lemma series_cmp_length: "series_cmp p d cells v = Inr m \<Longrightarrow> length m = length cells"
  by (auto simp: series_cmp_def split: pyval.splits if_splits dest!: collect_length)

lemma column_cmp_length: "column_cmp p t i v = Inr m \<Longrightarrow> length m = length (rows t)"
  by (auto simp: column_cmp_def col_cells_def dest!: series_cmp_length)

lemma contains_mask_length: "contains_mask sc t i v = Inr m \<Longrightarrow> length m = length (rows t)"
  by (auto simp: contains_mask_def col_cells_def split: sum.splits)

lemma condition_mask_length:
  "condition_mask sc t c = Inr (Some m) \<Longrightarrow> length m = length (rows t)"
  by (auto simp: condition_mask_def Let_def map_sum_def
      split: option.splits if_splits sum.splits
      dest: column_cmp_length contains_mask_length)

lemma col_idx_None: "col_idx c cs = None \<longleftrightarrow> c \<notin> set (map fst cs)"
  by (induction cs) (auto split: if_splits)

lemma col_idx_Some: "col_idx c cs = Some i \<Longrightarrow> c \<in> set (map fst cs)"
  using col_idx_None [of c cs] by auto

lemma condition_mask_unknown:
  "\<not> known_column (col_names t) c \<Longrightarrow> condition_mask sc t c = Inr None"
  by (auto simp: condition_mask_def known_column_def col_names_def Let_def
      split: option.splits dest!: col_idx_Some)

lemma build_masks_evaluated:
  "list_all2 (evaluated sc t) cs mos \<Longrightarrow> build_masks sc t cs = Inr (present mos)"
proof (induction cs mos rule: list_all2_induct)
  case Nil
  then show ?case by simp
next
  case (Cons c cs mo mos)
  then show ?case
    by (cases mo) (auto simp: evaluated_def condition_mask_unknown)
qed

lemma present_lengths:
  "list_all2 (evaluated sc t) cs mos \<Longrightarrow> list_all (\<lambda>m. length m = length (rows t)) (present mos)"
proof (induction cs mos rule: list_all2_induct)
  case Nil
  then show ?case by simp
next
  case (Cons c cs mo mos)
  then show ?case
    by (cases mo) (auto simp: evaluated_def dest: condition_mask_length)
qed

lemma mask_and_length: "length a = n \<Longrightarrow> length b = n \<Longrightarrow> length (mask_and a b) = n"
  by (simp add: mask_and_def)

lemma mask_and_nth:
  "length a = n \<Longrightarrow> length b = n \<Longrightarrow> j < n \<Longrightarrow> mask_and a b ! j = (a ! j \<and> b ! j)"
  by (simp add: mask_and_def)

lemma mask_or_length: "length a = n \<Longrightarrow> length b = n \<Longrightarrow> length (mask_or a b) = n"
  by (simp add: mask_or_def)

lemma mask_or_nth:
  "length a = n \<Longrightarrow> length b = n \<Longrightarrow> j < n \<Longrightarrow> mask_or a b ! j = (a ! j \<or> b ! j)"
  by (simp add: mask_or_def)

lemma foldl_mask_and:
  "length m = n \<Longrightarrow> list_all (\<lambda>x. length x = n) ms \<Longrightarrow>
     foldl mask_and m ms = mask_all (m # ms) n"
proof (induction ms arbitrary: m)
  case Nil
  then show ?case
    by (auto simp: mask_all_def intro: nth_equalityI)
next
  case (Cons x xs)
  then have lx: "length x = n" and lxs: "list_all (\<lambda>x. length x = n) xs"
    by simp_all
  have "foldl mask_and m (x # xs) = foldl mask_and (mask_and m x) xs"
    by simp
  also have "\<dots> = mask_all (mask_and m x # xs) n"
    using Cons.IH [OF mask_and_length [OF Cons.prems(1) lx] lxs] .
  also have "\<dots> = mask_all (m # x # xs) n"
    using Cons.prems(1) lx by (auto simp: mask_all_def mask_and_nth)
  finally show ?case .
qed

lemma foldl_mask_or:
  "length m = n \<Longrightarrow> list_all (\<lambda>x. length x = n) ms \<Longrightarrow>
     foldl mask_or m ms = mask_any (m # ms) n"
proof (induction ms arbitrary: m)
  case Nil
  then show ?case
    by (auto simp: mask_any_def intro: nth_equalityI)
next
  case (Cons x xs)
  then have lx: "length x = n" and lxs: "list_all (\<lambda>x. length x = n) xs"
    by simp_all
  have "foldl mask_or m (x # xs) = foldl mask_or (mask_or m x) xs"
    by simp
  also have "\<dots> = mask_any (mask_or m x # xs) n"
    using Cons.IH [OF mask_or_length [OF Cons.prems(1) lx] lxs] .
  also have "\<dots> = mask_any (m # x # xs) n"
    using Cons.prems(1) lx by (auto simp: mask_any_def mask_or_nth)
  finally show ?case .
qed

lemma multi_condition_filter_masks:
  assumes "list_all2 (evaluated sc t) cs mos"
  shows "multi_condition_filter sc t cs logic =
           Inr (if present mos = [] then t
                else select_rows (if upper logic = ''AND''
                                  then mask_all (present mos) (length (rows t))
                                  else mask_any (present mos) (length (rows t))) t)"
proof (cases "present mos")
  case Nil
  with build_masks_evaluated [OF assms] show ?thesis
    by (simp add: multi_condition_filter_def)
next
  case (Cons m ms)
  from present_lengths [OF assms] Cons
  have lm: "length m = length (rows t)"
    and lms: "list_all (\<lambda>x. length x = length (rows t)) ms"
    by simp_all
  from Cons assms have "cs \<noteq> []"
    by auto
  with build_masks_evaluated [OF assms] Cons show ?thesis
    by (simp add: multi_condition_filter_def foldl_mask_and [OF lm lms] foldl_mask_or [OF lm lms])
qed

lemma multi_condition_filter_single:
  assumes "evaluated sc t c mo"
  shows "multi_condition_filter sc t [c] logic =
           Inr (case mo of None \<Rightarrow> t | Some m \<Rightarrow> select_rows m t)"
proof (cases mo)
  case None
  with assms show ?thesis
    by (simp add: multi_condition_filter_def evaluated_def condition_mask_unknown)
next
  case (Some m)
  with assms show ?thesis
    by (simp add: multi_condition_filter_def evaluated_def)
qed

lemma build_masks_skip:
  "condition_mask sc t c = Inr None \<Longrightarrow>
     build_masks sc t (pre @ c # post) = build_masks sc t (pre @ post)"
  by (induction pre) (auto split: sum.splits)

lemma multi_condition_filter_skip:
  assumes "condition_mask sc t c = Inr None"
  shows "multi_condition_filter sc t (pre @ c # post) logic =
         multi_condition_filter sc t (pre @ post) logic"
proof (cases "pre @ post = []")
  case True
  with assms show ?thesis
    by (simp add: multi_condition_filter_def)
next
  case False
  then show ?thesis
    by (simp add: multi_condition_filter_def build_masks_skip [OF assms])
qed

text \<open>The strict filter's \<^verbatim>\<open>between\<close> on a column without texts: both endpoints are kept.\<close>

lemma collect_map_Inr:
  "(\<And>c. c \<in> set cs \<Longrightarrow> f c = Inr (g c)) \<Longrightarrow> collect (map f cs) = Inr (map g cs)"
  by (induction cs) auto

lemma select_rows_map: "select_rows (map h (rows t)) t = t\<lparr>rows := filter h (rows t)\<rparr>"
proof -
  have "map snd (filter fst (zip (map h rs) rs)) = filter h rs" for rs
    by (induction rs) auto
  then show ?thesis
    by (simp add: select_rows_def)
qed

lemma column_cmp_number:
  assumes "list_all (\<lambda>r. \<not> is_str (nth_cell r i)) (rows t)"
  shows "column_cmp p t i (VNum v) =
           Inr (map (\<lambda>r. case nth_cell r i of Num x \<Rightarrow> cmp_real p x v | _ \<Rightarrow> p = Ne) (rows t))"
proof -
  have "cell_cmp p (nth_cell r i) (VNum v) =
          Inr (case nth_cell r i of Num x \<Rightarrow> cmp_real p x v | _ \<Rightarrow> p = Ne)"
    if "r \<in> set (rows t)" for r
    using that assms by (cases "nth_cell r i") (auto simp: list_all_iff)
  then have "collect (map (\<lambda>r. cell_cmp p (nth_cell r i) (VNum v)) (rows t)) =
      Inr (map (\<lambda>r. case nth_cell r i of Num x \<Rightarrow> cmp_real p x v | _ \<Rightarrow> p = Ne) (rows t))"
    by (rule collect_map_Inr)
  then show ?thesis
    by (simp add: column_cmp_def series_cmp_def col_cells_def comp_def)
qed

lemma filter_dataframe_between_inclusive:
  assumes "\<not> df_empty t"
    and "col_idx col (columns t) = Some i"
    and "lower cond = ''between'' \<or> lower cond = ''range''"
    and "list_all (\<lambda>r. \<not> is_str (nth_cell r i)) (rows t)"
  shows "filter_dataframe sc col cond (VList [VNum lo, VNum hi]) t =
           Inr (t\<lparr>rows := filter (\<lambda>r. case nth_cell r i of Num x \<Rightarrow> lo \<le> x \<and> x \<le> hi
                                                            | _ \<Rightarrow> False) (rows t)\<rparr>)"
proof -
  let ?keep = "\<lambda>r. case nth_cell r i of Num x \<Rightarrow> lo \<le> x \<and> x \<le> hi | _ \<Rightarrow> False"
  have "between_mask t i (VNum lo) (VNum hi) = Inr (map ?keep (rows t))"
    by (auto simp: between_mask_def column_cmp_number [OF assms(4)] mask_and_def zip_map_map
        zip_same_conv_map split: cell.splits)
  moreover from assms(3)
  have "filter_mask sc t i cond (VList [VNum lo, VNum hi]) = between_mask t i (VNum lo) (VNum hi)"
    by (auto simp: filter_mask_def Let_def)
  ultimately show ?thesis
    using assms(1,2) by (simp add: filter_dataframe_def select_rows_map)
qed

text \<open>
  C5.  The claim: a \<^verbatim>\<open>between\<close> condition with a (low, high) pair keeps exactly the rows
  with low \<open>\<le>\<close> x \<open>\<le>\<close> high, in the strict filter and in the multi-condition path.  The
  strict filter does (second equation, and \<open>filter_dataframe_between_inclusive\<close>);
  \<^verbatim>\<open>multi_condition_filter\<close> has no branch for \<^verbatim>\<open>between\<close>, appends no mask and returns
  the table unfiltered (first equation): the rows 1 and 10 are kept for the pair (2, 6).
\<close>

theorem multi_condition_filter_ignores_between:
  "multi_condition_filter plain_contains
     \<lparr>columns = [(''x'', Int64)], rows = [[Num 1], [Num 5], [Num 10]]\<rparr>
     [\<lparr>column = Some ''x'', operator = Some ''between'', operand = VList [VNum 2, VNum 6]\<rparr>]
     ''AND''
   = Inr \<lparr>columns = [(''x'', Int64)], rows = [[Num 1], [Num 5], [Num 10]]\<rparr>
   \<and> filter_dataframe plain_contains ''x'' ''between'' (VList [VNum 2, VNum 6])
     \<lparr>columns = [(''x'', Int64)], rows = [[Num 1], [Num 5], [Num 10]]\<rparr>
   = Inr \<lparr>columns = [(''x'', Int64)], rows = [[Num 5]]\<rparr>"
  by code_simp

text \<open>
  C7 as stated: for every table and conditions over known columns, AND gives the
  intersection and OR the union of the per-condition row sets.  It fails where pandas
  cannot evaluate a condition: ordering a text column against a number raises
  \<^verbatim>\<open>TypeError\<close>, and no table is returned.
\<close>

theorem multi_condition_filter_type_error_counterexample:
  "multi_condition_filter plain_contains
     \<lparr>columns = [(''name'', Object)], rows = [[Str ''ann''], [Str ''bob'']]\<rparr>
     [\<lparr>column = Some ''name'', operator = Some ''>'', operand = VNum 5\<rparr>]
     ''AND''
   = Inl TypeError"
  by code_simp

text \<open>
  C7, amended: when every condition of the list either names an unknown column (and is
  skipped) or names a known column and has a mask the evaluator computes, the result
  keeps the rows at the positions where all the masks hold (logic \<^verbatim>\<open>AND\<close>, in any
  letter case) or where some mask holds (any other logic), and the whole table when no
  mask is left; each mask is the one of the filter with that condition alone; the empty
  list gives the table unchanged.
\<close>

theorem multi_condition_filter_and_or:
  assumes "list_all2 (evaluated sc t) cs mos"
  shows "multi_condition_filter sc t cs logic =
           Inr (if present mos = [] then t
                else select_rows (if upper logic = ''AND''
                                  then mask_all (present mos) (length (rows t))
                                  else mask_any (present mos) (length (rows t))) t)
         \<and> list_all2 (\<lambda>c mo. multi_condition_filter sc t [c] logic =
                                Inr (case mo of None \<Rightarrow> t | Some m \<Rightarrow> select_rows m t)) cs mos
         \<and> multi_condition_filter sc t [] logic = Inr t"
proof -
  have "list_all2 (\<lambda>c mo. multi_condition_filter sc t [c] logic =
                                Inr (case mo of None \<Rightarrow> t | Some m \<Rightarrow> select_rows m t)) cs mos"
    using assms by (rule list_all2_mono) (rule multi_condition_filter_single)
  moreover have "multi_condition_filter sc t [] logic = Inr t"
    by (simp add: multi_condition_filter_def)
  ultimately show ?thesis
    using multi_condition_filter_masks [OF assms] by simp
qed

theorem multi_condition_filter_and_or_witness:
  "list_all2 (evaluated plain_contains
       \<lparr>columns = [(''x'', Int64)], rows = [[Num 1], [Num 5], [Num 10]]\<rparr>)
     [\<lparr>column = Some ''x'', operator = Some ''>'', operand = VNum 2\<rparr>,
      \<lparr>column = Some ''zzz'', operator = Some ''=='', operand = VNum 1\<rparr>,
      \<lparr>column = Some ''x'', operator = Some ''<'', operand = VNum 7\<rparr>]
     [Some [False, True, True], None, Some [True, True, False]]
   \<and> multi_condition_filter plain_contains
       \<lparr>columns = [(''x'', Int64)], rows = [[Num 1], [Num 5], [Num 10]]\<rparr>
       [\<lparr>column = Some ''x'', operator = Some ''>'', operand = VNum 2\<rparr>,
        \<lparr>column = Some ''zzz'', operator = Some ''=='', operand = VNum 1\<rparr>,
        \<lparr>column = Some ''x'', operator = Some ''<'', operand = VNum 7\<rparr>]
       ''AND''
     = Inr \<lparr>columns = [(''x'', Int64)], rows = [[Num 5]]\<rparr>
   \<and> multi_condition_filter plain_contains
       \<lparr>columns = [(''x'', Int64)], rows = [[Num 1], [Num 5], [Num 10]]\<rparr>
       [\<lparr>column = Some ''x'', operator = Some ''>'', operand = VNum 2\<rparr>,
        \<lparr>column = Some ''zzz'', operator = Some ''=='', operand = VNum 1\<rparr>,
        \<lparr>column = Some ''x'', operator = Some ''<'', operand = VNum 7\<rparr>]
       ''or''
     = Inr \<lparr>columns = [(''x'', Int64)], rows = [[Num 1], [Num 5], [Num 10]]\<rparr>"
proof -
  let ?t = "\<lparr>columns = [(''x'', Int64)], rows = [[Num 1], [Num 5], [Num 10]]\<rparr>"
  let ?cs = "[\<lparr>column = Some ''x'', operator = Some ''>'', operand = VNum 2\<rparr>,
      \<lparr>column = Some ''zzz'', operator = Some ''=='', operand = VNum 1\<rparr>,
      \<lparr>column = Some ''x'', operator = Some ''<'', operand = VNum 7\<rparr>]"
  let ?mos = "[Some [False, True, True], None, Some [True, True, False]]"
  have h: "list_all2 (evaluated plain_contains ?t) ?cs ?mos"
    by code_simp
  have a: "(if present ?mos = [] then ?t
            else select_rows (if upper ''AND'' = ''AND''
                              then mask_all (present ?mos) (length (rows ?t))
                              else mask_any (present ?mos) (length (rows ?t))) ?t)
           = \<lparr>columns = [(''x'', Int64)], rows = [[Num 5]]\<rparr>"
    by code_simp
  have b: "(if present ?mos = [] then ?t
            else select_rows (if upper ''or'' = ''AND''
                              then mask_all (present ?mos) (length (rows ?t))
                              else mask_any (present ?mos) (length (rows ?t))) ?t)
           = ?t"
    by code_simp
  from multi_condition_filter_and_or [OF h, of "''AND''"] a
  have ra: "multi_condition_filter plain_contains ?t ?cs ''AND''
            = Inr \<lparr>columns = [(''x'', Int64)], rows = [[Num 5]]\<rparr>"
    by (simp only:)
  from multi_condition_filter_and_or [OF h, of "''or''"] b
  have rb: "multi_condition_filter plain_contains ?t ?cs ''or'' = Inr ?t"
    by (simp only:)
  from h ra rb show ?thesis
    by (intro conjI)
qed

text \<open>
  C8 as stated: the strict filter fails with ColumnNotFound for every condition naming an
  absent column.  It fails on an empty table: \<^verbatim>\<open>if dataframe.empty: return dataframe\<close>
  comes before the column check.
\<close>

theorem strict_filter_empty_table_counterexample:
  "filter_dataframe plain_contains ''zzz'' ''greater'' (VNum 1)
     \<lparr>columns = [(''x'', Int64)], rows = []\<rparr>
   = Inr \<lparr>columns = [(''x'', Int64)], rows = []\<rparr>"
  by code_simp

text \<open>
  C8, amended: on a table that is not empty the strict filter fails with ColumnNotFound
  for an absent column, whatever the condition and the value; the multi-condition
  evaluator gives, with a condition on an absent column anywhere in the list, what it
  gives without that condition.
\<close>

theorem strict_filter_fails_lenient_filter_skips:
  assumes "\<not> df_empty t" and "col \<notin> set (col_names t)" and "column c = Some col"
  shows "filter_dataframe sc col cond v t = Inl (ColumnNotFound col)
         \<and> multi_condition_filter sc t (pre @ c # post) logic =
           multi_condition_filter sc t (pre @ post) logic"
proof -
  from assms(2) have "col_idx col (columns t) = None"
    by (simp add: col_idx_None col_names_def)
  with assms(1) have "filter_dataframe sc col cond v t = Inl (ColumnNotFound col)"
    by (simp add: filter_dataframe_def)
  moreover from assms(2,3) have "condition_mask sc t c = Inr None"
    by (intro condition_mask_unknown) (simp add: known_column_def)
  ultimately show ?thesis
    using multi_condition_filter_skip by simp
qed

theorem strict_filter_fails_lenient_filter_skips_witness:
  "\<not> df_empty \<lparr>columns = [(''x'', Int64)], rows = [[Num 1], [Num 5], [Num 10]]\<rparr>
   \<and> ''zzz'' \<notin> set (col_names \<lparr>columns = [(''x'', Int64)], rows = [[Num 1], [Num 5], [Num 10]]\<rparr>)
   \<and> column \<lparr>column = Some ''zzz'', operator = Some ''>'', operand = VNum 1\<rparr> = Some ''zzz''
   \<and> filter_dataframe plain_contains ''zzz'' ''greater'' (VNum 1)
       \<lparr>columns = [(''x'', Int64)], rows = [[Num 1], [Num 5], [Num 10]]\<rparr>
     = Inl (ColumnNotFound ''zzz'')
   \<and> multi_condition_filter plain_contains
       \<lparr>columns = [(''x'', Int64)], rows = [[Num 1], [Num 5], [Num 10]]\<rparr>
       ([\<lparr>column = Some ''x'', operator = Some ''>'', operand = VNum 2\<rparr>]
        @ \<lparr>column = Some ''zzz'', operator = Some ''>'', operand = VNum 1\<rparr> # [])
       ''AND''
     = multi_condition_filter plain_contains
       \<lparr>columns = [(''x'', Int64)], rows = [[Num 1], [Num 5], [Num 10]]\<rparr>
       ([\<lparr>column = Some ''x'', operator = Some ''>'', operand = VNum 2\<rparr>] @ [])
       ''AND''"
proof -
  let ?t = "\<lparr>columns = [(''x'', Int64)], rows = [[Num 1], [Num 5], [Num 10]]\<rparr>"
  let ?c = "\<lparr>column = Some ''zzz'', operator = Some ''>'', operand = VNum 1\<rparr>"
  have h1: "\<not> df_empty ?t"
    by (simp add: df_empty_def)
  have h2: "''zzz'' \<notin> set (col_names ?t)"
    by (simp add: col_names_def)
  have h3: "column ?c = Some ''zzz''"
    by simp
  from strict_filter_fails_lenient_filter_skips [OF h1 h2 h3] h1 h2 h3 show ?thesis
    by (intro conjI) blast+
qed

section \<open>Claims about the result normalizer\<close>

text \<open>
  C3.  The claim: lines containing \<^verbatim>\<open>---\<close> are separator rows and never become data rows,
  and the four-line example gives the 2 x 2 table with rows (1,2) and (3,4).  In the code
  the separator \<^verbatim>\<open>|---|---|\<close> starts with \<^verbatim>\<open>|\<close>, so the first branch of the loop takes it
  before the branch that skips separators is reached: it becomes the first data row, and
  the table has three rows.
\<close>

theorem pipe_table_keeps_separator_row:
  "parse_pipe_table ''| A | B |\<newline>|---|---|\<newline>| 1 | 2 |\<newline>| 3 | 4 |''
   = Some \<lparr>columns = [(''A'', Object), (''B'', Object)],
           rows = [[Str ''---'', Str ''---''], [Str ''1'', Str ''2''], [Str ''3'', Str ''4'']]\<rparr>"
  by code_simp

section \<open>Claims about outlier detection\<close>

text \<open>An integer column never passes the dtype test, whatever the method and the NumPy
  at hand; on a float column, where the test lets it through, the IQR rule flags 100.\<close>

lemma detect_outliers_integer_column:
  "col_idx c (columns t) = Some i \<Longrightarrow> col_dtype t i = Int64 \<Longrightarrow>
     detect_outliers legacy t c method = Inl (NotNumeric c)"
  by (simp add: detect_outliers_def in_np_number_def)

lemma detect_outliers_float_column_iqr:
  "detect_outliers True
     \<lparr>columns = [(''v'', Float64)], rows = [[Num 1], [Num 2], [Num 3], [Num 4], [Num 100]]\<rparr>
     ''v'' ''IQR''
   = Inr \<lparr>columns = [(''v'', Float64)], rows = [[Num 100]]\<rparr>"
  by (simp add: detect_outliers_def in_np_number_def col_dtype_def lower_def lower_char_def
      iqr_mask_def quantile_def Let_def col_cells_def nth_cell_def select_rows_def)

text \<open>
  C6.  The claim: TypeMismatch is raised if and only if the column is non-numeric, and
  over the values 1, 2, 3, 4, 100 the IQR method flags 100.  In the code the integer
  column of these values fails the test \<^verbatim>\<open>dtype not in [np.number]\<close> and the function
  raises "must be numeric" although the column is numeric.
\<close>

theorem detect_outliers_rejects_integer_column:
  "detect_outliers legacy
     \<lparr>columns = [(''v'', Int64)], rows = [[Num 1], [Num 2], [Num 3], [Num 4], [Num 100]]\<rparr>
     ''v'' ''iqr''
   = Inl (NotNumeric ''v'')"
  by (simp add: detect_outliers_def in_np_number_def col_dtype_def)

section \<open>Claims about the data quality summaries\<close>

lemma series_reduce_numeric:
  "is_numeric_dtype d \<Longrightarrow> series_reduce f d cells = Inr (reduce_numbers f d cells)"
  by (simp add: series_reduce_def)

text \<open>The range values of the advanced variant never raise on a numeric column and are
  dropped: its record is the record of the plain variant.\<close>

lemma advanced_record_eq:
  "advanced_record t col d cells = Inr (quality_record t col d cells)"
  by (simp add: advanced_record_def series_reduce_numeric)

lemma advanced_summary_eq:
  "get_data_quality_summary_advanced t = Inr (get_data_quality_summary t)"
proof -
  have "collect (map (\<lambda>((col, d), i). advanced_record t col d (col_cells t i))
                     (zip (columns t) [0..<length (columns t)]))
        = Inr (map (\<lambda>((col, d), i). quality_record t col d (col_cells t i))
                   (zip (columns t) [0..<length (columns t)]))"
    by (rule collect_map_Inr) (auto simp: advanced_record_eq)
  then show ?thesis
    by (simp add: get_data_quality_summary_advanced_def get_data_quality_summary_def)
qed

text \<open>
  C10.  The claim: for every input table the two implementations return identical tables
  with the same nine columns.  For a table without columns the loop over the columns
  appends nothing and \<^verbatim>\<open>pd.DataFrame([])\<close> is a frame without columns: the two results are
  identical, but they do not have the nine columns.
\<close>

theorem quality_summary_no_columns_counterexample:
  "get_data_quality_summary_advanced \<lparr>columns = [], rows = []\<rparr>
     = Inr \<lparr>columns = [], rows = []\<rparr>
   \<and> get_data_quality_summary \<lparr>columns = [], rows = []\<rparr> = \<lparr>columns = [], rows = []\<rparr>
   \<and> columns (get_data_quality_summary \<lparr>columns = [], rows = []\<rparr>) \<noteq> quality_columns"
  by code_simp

text \<open>
  C10, amended: for every table the advanced implementation returns, without raising,
  the table that the plain implementation returns; for a table with at least one column
  this table has the nine columns Column, Data Type, Total Rows, Non-Null Count, Null
  Count, Null Percentage, Unique Values, Duplicates, Completeness and one row of nine
  values per column of the input; for a table without columns it is the frame without
  columns.
\<close>

theorem quality_summaries_agree:
  assumes "wf_table t"
  shows "get_data_quality_summary_advanced t = Inr (get_data_quality_summary t)
         \<and> (if columns t = [] then get_data_quality_summary t = \<lparr>columns = [], rows = []\<rparr>
            else columns (get_data_quality_summary t) = quality_columns
                 \<and> length (rows (get_data_quality_summary t)) = length (columns t)
                 \<and> list_all (\<lambda>r. length r = 9) (rows (get_data_quality_summary t)))"
proof -
  have "list_all (\<lambda>r. length r = 9) (rows (get_data_quality_summary t))"
    by (auto simp: get_data_quality_summary_def quality_frame_def quality_record_def Let_def
        list_all_iff)
  moreover have "columns t \<noteq> [] \<Longrightarrow> columns (get_data_quality_summary t) = quality_columns
      \<and> length (rows (get_data_quality_summary t)) = length (columns t)"
    by (simp add: get_data_quality_summary_def quality_frame_def)
  moreover have "columns t = [] \<Longrightarrow> get_data_quality_summary t = \<lparr>columns = [], rows = []\<rparr>"
    by (simp add: get_data_quality_summary_def quality_frame_def)
  ultimately show ?thesis
    using advanced_summary_eq by simp
qed

theorem quality_summaries_agree_witness:
  "wf_table \<lparr>columns = [(''g'', Object), (''y'', Float64)],
             rows = [[Str ''a'', Num 2], [Str ''b'', Null], [Str ''a'', Num 4]]\<rparr>
   \<and> get_data_quality_summary_advanced
       \<lparr>columns = [(''g'', Object), (''y'', Float64)],
        rows = [[Str ''a'', Num 2], [Str ''b'', Null], [Str ''a'', Num 4]]\<rparr>
     = Inr \<lparr>columns = quality_columns,
            rows = [[Str ''g'', Str ''object'', Num 3, Num 3, Num 0, Str ''0.00%'', Num 2, Num 1,
                     Str ''100.00%''],
                    [Str ''y'', Str ''float64'', Num 3, Num 2, Num 1, Str ''33.33%'', Num 2, Num 0,
                     Str ''66.67%'']]\<rparr>"
proof -
  let ?t = "\<lparr>columns = [(''g'', Object), (''y'', Float64)],
        rows = [[Str ''a'', Num 2], [Str ''b'', Null], [Str ''a'', Num 4]]\<rparr>"
  have h: "wf_table ?t"
    by code_simp
  have e: "get_data_quality_summary ?t
     = \<lparr>columns = quality_columns,
            rows = [[Str ''g'', Str ''object'', Num 3, Num 3, Num 0, Str ''0.00%'', Num 2, Num 1,
                     Str ''100.00%''],
                    [Str ''y'', Str ''float64'', Num 3, Num 2, Num 1, Str ''33.33%'', Num 2, Num 0,
                     Str ''66.67%'']]\<rparr>"
    by code_simp
  from quality_summaries_agree [OF h]
  have "get_data_quality_summary_advanced ?t = Inr (get_data_quality_summary ?t)"
    by (rule conjunct1)
  with e h show ?thesis
    by (simp only:)
qed

section \<open>Claims about the aggregation engine\<close>

text \<open>The single-column path: the rows of the result are the keys with the values of
  their groups; it fails when the reduction of a group raises, or when the aggregation
  column is the group column.\<close>

lemma collect_Inl: "collect xs = Inl e \<Longrightarrow> Inl e \<in> set xs"
proof (induction xs)
  case Nil
  then show ?case by simp
next
  case (Cons x xs)
  then show ?case by (cases x) (auto split: sum.splits)
qed

lemma collect_Inr: "collect xs = Inr ys \<Longrightarrow> xs = map Inr ys"
proof (induction xs arbitrary: ys)
  case Nil
  then show ?case by simp
next
  case (Cons x xs)
  then show ?case by (cases x) (auto split: sum.splits)
qed

lemma rows_keys:
  "length ks = length vs \<Longrightarrow>
     map (\<lambda>row. nth_cell row 0) (map (\<lambda>(k, v). [k, v]) (zip ks vs)) = ks"
  by (induction ks vs rule: list_induct2) (auto simp: nth_cell_def)

lemma rows_values:
  "length ks = length vs \<Longrightarrow>
     map (\<lambda>row. nth_cell row 1) (map (\<lambda>(k, v). [k, v]) (zip ks vs)) = vs"
  by (induction ks vs rule: list_induct2) (auto simp: nth_cell_def)

lemma rows_width: "list_all (\<lambda>row. length row = 2) (map (\<lambda>(k, v). [k, v]) (zip ks vs))"
  by (auto simp: list_all_iff)

lemma chosen_column_Some:
  "a \<noteq> [] \<Longrightarrow> col_idx a (columns t) = Some ai \<Longrightarrow> chosen_column t (Some a) = Some (a, ai)"
  by (simp add: chosen_column_def)

lemma chosen_column_absent:
  "a = [] \<or> col_idx a (columns t) = None \<Longrightarrow> chosen_column t (Some a) = chosen_column t None"
  by (auto simp: chosen_column_def)

lemma absent_column_falls_through:
  "a = [] \<or> col_idx a (columns t) = None \<Longrightarrow>
     group_by_aggregate reduce agg_by_name t g fn (Some a)
     = group_by_aggregate reduce agg_by_name t g fn None"
  by (simp only: group_by_aggregate_def chosen_column_absent)

lemma single_column_result:
  assumes "col_idx g (columns t) = Some gi" and "a \<noteq> []" and "col_idx a (columns t) = Some ai"
    and "single_fun fn = Some f"
  shows "case group_by_aggregate reduce agg_by_name t g fn (Some a) of
           Inl e \<Rightarrow>
             (a = g \<and> e = already_exists)
             \<or> (\<exists>e'. e = GroupByError e'
                   \<and> (\<exists>k \<in> set (group_keys (col_cells t gi)).
                         reduce f (col_dtype t ai) (group_cells t gi ai k) = Inl e'))
         | Inr r \<Rightarrow>
             a \<noteq> g
             \<and> columns r = [(g, col_dtype t gi), (a, agg_dtype f (col_dtype t ai))]
             \<and> map (\<lambda>row. nth_cell row 0) (rows r) = group_keys (col_cells t gi)
             \<and> map (\<lambda>row. Inr (nth_cell row 1)) (rows r)
                 = map (\<lambda>k. reduce f (col_dtype t ai) (group_cells t gi ai k))
                       (group_keys (col_cells t gi))
             \<and> list_all (\<lambda>row. length row = 2) (rows r)"
proof -
  let ?keys = "group_keys (col_cells t gi)"
  let ?d = "col_dtype t ai"
  let ?vs = "map (reduce f ?d) (map (group_cells t gi ai) ?keys)"
  from assms(2,3) have c: "chosen_column t (Some a) = Some (a, ai)"
    by (rule chosen_column_Some)
  show ?thesis
  proof (cases "collect ?vs")
    case (Inl e)
    then have "Inl e \<in> set ?vs"
      by (rule collect_Inl)
    then have "\<exists>k \<in> set ?keys. reduce f ?d (group_cells t gi ai k) = Inl e"
      by auto
    moreover from assms(1,4) c Inl
    have "group_by_aggregate reduce agg_by_name t g fn (Some a) = Inl (GroupByError e)"
      by (simp add: group_by_aggregate_def pd_agg_def)
    ultimately show ?thesis
      by auto
  next
    case (Inr vals)
    then have len: "length ?keys = length vals"
      by (auto dest: collect_length)
    from Inr have vs: "?vs = map Inr vals"
      by (rule collect_Inr)
    show ?thesis
    proof (cases "a = g")
      case True
      with assms(1,4) c Inr
      have "group_by_aggregate reduce agg_by_name t g fn (Some a) = Inl already_exists"
        by (simp add: group_by_aggregate_def pd_agg_def)
      with True show ?thesis
        by simp
    next
      case False
      let ?rows = "map (\<lambda>(k, v). [k, v]) (zip ?keys vals)"
      from False assms(1,4) c Inr
      have r: "group_by_aggregate reduce agg_by_name t g fn (Some a)
               = Inr \<lparr>columns = [(g, col_dtype t gi), (a, agg_dtype f ?d)], rows = ?rows\<rparr>"
        by (simp add: group_by_aggregate_def pd_agg_def)
      have k: "map (\<lambda>row. nth_cell row 0) ?rows = ?keys"
        using len by (rule rows_keys)
      have "map (\<lambda>row. nth_cell row 1) ?rows = vals"
        using len by (rule rows_values)
      then have "map Inr (map (\<lambda>row. nth_cell row 1) ?rows) = map Inr vals"
        by (simp only:)
      with vs have v: "map (\<lambda>row. Inr (nth_cell row 1)) ?rows
                       = map (\<lambda>k. reduce f ?d (group_cells t gi ai k)) ?keys"
        by (simp add: comp_def)
      have w: "list_all (\<lambda>row. length row = 2) ?rows"
        by (rule rows_width)
      from False r k v w show ?thesis
        by (simp only: sum.case table.simps) simp
    qed
  qed
qed


lemma collect_fst:
  "(\<And>c y. c \<in> set cs \<Longrightarrow> G c = Inr y \<Longrightarrow> fst y = fst c) \<Longrightarrow> collect (map G cs) = Inr cols
     \<Longrightarrow> map fst cols = map fst cs"
proof (induction cs arbitrary: cols)
  case Nil
  then show ?case by simp
next
  case (Cons c cs)
  from Cons.prems(2) obtain y ys where y: "G c = Inr y" and ys: "collect (map G cs) = Inr ys"
    and cols: "cols = y # ys"
    by (cases "G c") (auto split: sum.splits)
  from Cons.prems(1) [of c y] y have "fst y = fst c"
    by simp
  moreover from Cons.IH [OF _ ys] Cons.prems(1) have "map fst ys = map fst cs"
    by simp
  ultimately show ?case
    using cols by simp
qed

lemma collect_names:
  "collect (map (\<lambda>(n, d, i). map_sum id (Pair n) (F n d i)) cs) = Inr cols \<Longrightarrow>
     map fst cols = map fst cs"
  by (rule collect_fst [where G = "\<lambda>(n, d, i). map_sum id (Pair n) (F n d i)"])
    (auto simp: map_sum_def split: sum.splits)

lemma indexed_rows_keys:
  "map (\<lambda>row. nth_cell row 0) (map (\<lambda>(j, k). k # h j) (zip [0..<length ks] ks)) = ks"
proof -
  have "map (\<lambda>row. nth_cell row 0) (map (\<lambda>(j, k). k # h j) (zip js ks)) = ks"
    if "length js = length ks" for js
    using that by (induction js ks rule: list_induct2) (auto simp: nth_cell_def)
  then show ?thesis
    by simp
qed

lemma numeric_cols_names:
  "map fst (numeric_cols t) = map fst (filter (\<lambda>(n, d). is_numeric_dtype d) (columns t))"
proof -
  have "map fst (map (\<lambda>((n, d), i). (n, d, i)) (filter (\<lambda>((n, d), i). is_numeric_dtype d) (zip cs js)))
        = map fst (filter (\<lambda>(n, d). is_numeric_dtype d) cs)"
    if "length cs = length js" for cs :: "(string \<times> dtype) list" and js :: "nat list"
    using that by (induction cs js rule: list_induct2) auto
  then show ?thesis
    by (simp add: numeric_cols_def)
qed

lemma all_columns_result:
  assumes "col_idx g (columns t) = Some gi"
  shows "case group_by_aggregate reduce agg_by_name t g fn None of
           Inl e \<Rightarrow> \<exists>e'. e = GroupByError e'
         | Inr r \<Rightarrow>
             g \<notin> set (map fst (filter (\<lambda>(n, d). is_numeric_dtype d) (columns t)))
             \<and> col_names r = g # map fst (filter (\<lambda>(n, d). is_numeric_dtype d) (columns t))
             \<and> map (\<lambda>row. nth_cell row 0) (rows r) = group_keys (col_cells t gi)"
proof (cases "group_by_aggregate reduce agg_by_name t g fn None")
  case (Inl e)
  with assms have "\<exists>e'. e = GroupByError e'"
    by (auto simp: group_by_aggregate_def chosen_column_def Let_def already_exists_def
        split: sum.splits if_splits)
  with Inl show ?thesis
    by (simp only: sum.case)
next
  case (Inr r)
  let ?keys = "group_keys (col_cells t gi)"
  let ?F = "\<lambda>n d i. all_columns_fun reduce agg_by_name fn d (map (group_cells t gi i) ?keys)"
  from Inr assms obtain cols where
    c: "collect (map (\<lambda>(n, d, i). map_sum id (Pair n) (?F n d i)) (numeric_cols t)) = Inr cols"
    and g: "g \<notin> set (map fst (numeric_cols t))"
    and r: "r = \<lparr>columns = (g, col_dtype t gi) # map (\<lambda>(n, d, vals). (n, d)) cols,
                  rows = map (\<lambda>(j, k). k # map (\<lambda>(n, d, vals). nth_cell vals j) cols)
                             (zip [0..<length ?keys] ?keys)\<rparr>"
    by (auto simp: group_by_aggregate_def chosen_column_def Let_def split: sum.splits if_splits)
  from collect_names [OF c] have "map fst cols = map fst (numeric_cols t)" .
  then have n: "col_names r = g # map fst (numeric_cols t)"
    by (simp add: r col_names_def comp_def case_prod_beta)
  have k: "map (\<lambda>row. nth_cell row 0) (rows r) = ?keys"
    unfolding r by (simp only: table.simps indexed_rows_keys)
  from g n k Inr show ?thesis
    by (simp only: numeric_cols_names sum.case) simp
qed

text \<open>
  C9.  The claim: for every table, group column of the table, supported function and
  given aggregation column, only that column is aggregated, the result having exactly the
  group column and that column.  The single-column path is guarded by
  \<^verbatim>\<open>agg_column and agg_column in dataframe.columns\<close>: a given column that the table does
  not have sends the call to the path over all numeric columns.
\<close>

theorem group_by_aggregate_absent_column_counterexample:
  "group_by_aggregate series_reduce named_agg
     \<lparr>columns = [(''g'', Object), (''x'', Int64), (''y'', Float64), (''n'', Object)],
       rows = [[Str ''a'', Num 2, Num 2, Str ''u''], [Str ''b'', Num 5, Null, Str ''v''],
               [Str ''a'', Num 10, Num 4, Str ''w'']]\<rparr>
     ''g'' ''sum'' (Some ''zzz'')
   = Inr \<lparr>columns = [(''g'', Object), (''x'', Int64), (''y'', Float64)],
          rows = [[Str ''a'', Num 12, Num 6], [Str ''b'', Num 5, Num 0]]\<rparr>"
  by code_simp

text \<open>The single-column path with \<open>series_reduce\<close> on a table with a missing cell: sum,
  count, maximum, minimum and standard deviation; the mean of a text column and the group
  column as aggregation column, which fail; the path over all numeric columns with a
  numeric group column, which fails; and a sum that leaves the 64-bit range.\<close>

lemma group_by_aggregate_examples:
  "group_by_aggregate series_reduce named_agg \<lparr>columns = [(''g'', Object), (''x'', Int64), (''y'', Float64), (''n'', Object)],
       rows = [[Str ''a'', Num 2, Num 2, Str ''u''], [Str ''b'', Num 5, Null, Str ''v''],
               [Str ''a'', Num 10, Num 4, Str ''w'']]\<rparr> ''g'' ''sum'' (Some ''x'')
   = Inr \<lparr>columns = [(''g'', Object), (''x'', Int64)],
          rows = [[Str ''a'', Num 12], [Str ''b'', Num 5]]\<rparr>"
  "group_by_aggregate series_reduce named_agg \<lparr>columns = [(''g'', Object), (''x'', Int64), (''y'', Float64), (''n'', Object)],
       rows = [[Str ''a'', Num 2, Num 2, Str ''u''], [Str ''b'', Num 5, Null, Str ''v''],
               [Str ''a'', Num 10, Num 4, Str ''w'']]\<rparr> ''g'' ''COUNT'' (Some ''y'')
   = Inr \<lparr>columns = [(''g'', Object), (''y'', Int64)],
          rows = [[Str ''a'', Num 2], [Str ''b'', Num 0]]\<rparr>"
  "group_by_aggregate series_reduce named_agg \<lparr>columns = [(''g'', Object), (''x'', Int64), (''y'', Float64), (''n'', Object)],
       rows = [[Str ''a'', Num 2, Num 2, Str ''u''], [Str ''b'', Num 5, Null, Str ''v''],
               [Str ''a'', Num 10, Num 4, Str ''w'']]\<rparr> ''g'' ''max'' (Some ''x'')
   = Inr \<lparr>columns = [(''g'', Object), (''x'', Int64)],
          rows = [[Str ''a'', Num 10], [Str ''b'', Num 5]]\<rparr>"
  "group_by_aggregate series_reduce named_agg \<lparr>columns = [(''g'', Object), (''x'', Int64), (''y'', Float64), (''n'', Object)],
       rows = [[Str ''a'', Num 2, Num 2, Str ''u''], [Str ''b'', Num 5, Null, Str ''v''],
               [Str ''a'', Num 10, Num 4, Str ''w'']]\<rparr> ''g'' ''min'' (Some ''y'')
   = Inr \<lparr>columns = [(''g'', Object), (''y'', Float64)],
          rows = [[Str ''a'', Num 2], [Str ''b'', Null]]\<rparr>"
  "group_by_aggregate series_reduce named_agg \<lparr>columns = [(''g'', Object), (''x'', Int64), (''y'', Float64), (''n'', Object)],
       rows = [[Str ''a'', Num 2, Num 2, Str ''u''], [Str ''b'', Num 5, Null, Str ''v''],
               [Str ''a'', Num 10, Num 4, Str ''w'']]\<rparr> ''g'' ''stddev'' (Some ''y'')
   = Inr \<lparr>columns = [(''g'', Object), (''y'', Float64)],
          rows = [[Str ''a'', Num (sample_std [2, 4])], [Str ''b'', Null]]\<rparr>"
  "group_by_aggregate series_reduce named_agg \<lparr>columns = [(''g'', Object), (''x'', Int64), (''y'', Float64), (''n'', Object)],
       rows = [[Str ''a'', Num 2, Num 2, Str ''u''], [Str ''b'', Num 5, Null, Str ''v''],
               [Str ''a'', Num 10, Num 4, Str ''w'']]\<rparr> ''g'' ''mean'' (Some ''n'')
   = Inl (GroupByError TypeError)"
  "group_by_aggregate series_reduce named_agg \<lparr>columns = [(''g'', Object), (''x'', Int64), (''y'', Float64), (''n'', Object)],
       rows = [[Str ''a'', Num 2, Num 2, Str ''u''], [Str ''b'', Num 5, Null, Str ''v''],
               [Str ''a'', Num 10, Num 4, Str ''w'']]\<rparr> ''g'' ''count'' (Some ''g'')
   = Inl already_exists"
  "group_by_aggregate series_reduce named_agg \<lparr>columns = [(''g'', Object), (''x'', Int64), (''y'', Float64), (''n'', Object)],
       rows = [[Str ''a'', Num 2, Num 2, Str ''u''], [Str ''b'', Num 5, Null, Str ''v''],
               [Str ''a'', Num 10, Num 4, Str ''w'']]\<rparr> ''x'' ''sum'' (Some ''zzz'')
   = Inl already_exists"
  "group_by_aggregate series_reduce named_agg
     \<lparr>columns = [(''g'', Object), (''x'', Int64)],
      rows = [[Str ''a'', Num 4611686018427387904], [Str ''a'', Num 4611686018427387904]]\<rparr>
     ''g'' ''sum'' (Some ''x'')
   = Inr \<lparr>columns = [(''g'', Object), (''x'', Int64)],
          rows = [[Str ''a'', Num (- 9223372036854775808)]]\<rparr>"
  by code_simp+

text \<open>
  C9, amended: the call fails with ColumnNotFound when the group column is absent.  With
  the group column and a given, non-empty aggregation column both in the table, an
  unrecognized function name fails with the unknown-function error, and a recognized one
  gives either a failure, which happens exactly when the library's reduction raises on
  the cells of a group or the aggregation column is the group column, or the table of
  exactly the group column and the aggregation column: one row of two cells per group
  key, keys in the first column, and in the second the reduction, by the recognized
  function, of the cells that the aggregation column has in the rows of that key.  A
  given aggregation column that is empty or not in the table is not an error: the call
  does what it does without aggregation column, the path over every numeric column,
  whose result, when it returns one, has the group column followed by the numeric
  columns, and which fails when the group column is itself numeric.
\<close>

theorem group_by_aggregate_single_column:
  assumes "wf_table t"
  shows "(col_idx g (columns t) = None \<longrightarrow>
            group_by_aggregate reduce agg_by_name t g fn agg_column = Inl (ColumnNotFound g))
       \<and> (\<forall>gi ai. col_idx g (columns t) = Some gi \<and> a \<noteq> [] \<and> col_idx a (columns t) = Some ai \<longrightarrow>
            (case single_fun fn of
               None \<Rightarrow>
                 group_by_aggregate reduce agg_by_name t g fn (Some a)
                   = Inl (GroupByError (UnknownFunction fn))
             | Some f \<Rightarrow>
                 (case group_by_aggregate reduce agg_by_name t g fn (Some a) of
                    Inl e \<Rightarrow>
                      (a = g \<and> e = already_exists)
                      \<or> (\<exists>e'. e = GroupByError e'
                            \<and> (\<exists>k \<in> set (group_keys (col_cells t gi)).
                                  reduce f (col_dtype t ai) (map (\<lambda>row. nth_cell row ai)
                                     (filter (\<lambda>row. nth_cell row gi = k) (rows t))) = Inl e'))
                  | Inr r \<Rightarrow>
                      a \<noteq> g
                      \<and> columns r = [(g, col_dtype t gi), (a, agg_dtype f (col_dtype t ai))]
                      \<and> map (\<lambda>row. nth_cell row 0) (rows r) = group_keys (col_cells t gi)
                      \<and> map (\<lambda>row. Inr (nth_cell row 1)) (rows r)
                          = map (\<lambda>k. reduce f (col_dtype t ai) (map (\<lambda>row. nth_cell row ai)
                                     (filter (\<lambda>row. nth_cell row gi = k) (rows t))))
                                (group_keys (col_cells t gi))
                      \<and> list_all (\<lambda>row. length row = 2) (rows r))))
       \<and> (a = [] \<or> col_idx a (columns t) = None \<longrightarrow>
            group_by_aggregate reduce agg_by_name t g fn (Some a)
            = group_by_aggregate reduce agg_by_name t g fn None)
       \<and> (\<forall>gi. col_idx g (columns t) = Some gi \<longrightarrow>
            (case group_by_aggregate reduce agg_by_name t g fn None of
               Inl e \<Rightarrow> \<exists>e'. e = GroupByError e'
             | Inr r \<Rightarrow>
                 g \<notin> set (map fst (filter (\<lambda>(n, d). is_numeric_dtype d) (columns t)))
                 \<and> col_names r = g # map fst (filter (\<lambda>(n, d). is_numeric_dtype d) (columns t))
                 \<and> map (\<lambda>row. nth_cell row 0) (rows r) = group_keys (col_cells t gi)))"
proof (intro conjI allI impI)
  assume "col_idx g (columns t) = None"
  then show "group_by_aggregate reduce agg_by_name t g fn agg_column = Inl (ColumnNotFound g)"
    by (simp add: group_by_aggregate_def)
next
  fix gi ai
  assume h: "col_idx g (columns t) = Some gi \<and> a \<noteq> [] \<and> col_idx a (columns t) = Some ai"
  show "case single_fun fn of
               None \<Rightarrow>
                 group_by_aggregate reduce agg_by_name t g fn (Some a)
                   = Inl (GroupByError (UnknownFunction fn))
             | Some f \<Rightarrow>
                 (case group_by_aggregate reduce agg_by_name t g fn (Some a) of
                    Inl e \<Rightarrow>
                      (a = g \<and> e = already_exists)
                      \<or> (\<exists>e'. e = GroupByError e'
                            \<and> (\<exists>k \<in> set (group_keys (col_cells t gi)).
                                  reduce f (col_dtype t ai) (map (\<lambda>row. nth_cell row ai)
                                     (filter (\<lambda>row. nth_cell row gi = k) (rows t))) = Inl e'))
                  | Inr r \<Rightarrow>
                      a \<noteq> g
                      \<and> columns r = [(g, col_dtype t gi), (a, agg_dtype f (col_dtype t ai))]
                      \<and> map (\<lambda>row. nth_cell row 0) (rows r) = group_keys (col_cells t gi)
                      \<and> map (\<lambda>row. Inr (nth_cell row 1)) (rows r)
                          = map (\<lambda>k. reduce f (col_dtype t ai) (map (\<lambda>row. nth_cell row ai)
                                     (filter (\<lambda>row. nth_cell row gi = k) (rows t))))
                                (group_keys (col_cells t gi))
                      \<and> list_all (\<lambda>row. length row = 2) (rows r))"
  proof (cases "single_fun fn")
    case None
    with h show ?thesis
      by (simp add: group_by_aggregate_def chosen_column_Some)
  next
    case (Some f)
    with h single_column_result [of g t gi a ai fn f reduce agg_by_name,
        unfolded group_cells_def]
    show ?thesis
      by simp
  qed
next
  assume "a = [] \<or> col_idx a (columns t) = None"
  then show "group_by_aggregate reduce agg_by_name t g fn (Some a)
             = group_by_aggregate reduce agg_by_name t g fn None"
    by (rule absent_column_falls_through)
next
  fix gi
  assume "col_idx g (columns t) = Some gi"
  then show "case group_by_aggregate reduce agg_by_name t g fn None of
               Inl e \<Rightarrow> \<exists>e'. e = GroupByError e'
             | Inr r \<Rightarrow>
                 g \<notin> set (map fst (filter (\<lambda>(n, d). is_numeric_dtype d) (columns t)))
                 \<and> col_names r = g # map fst (filter (\<lambda>(n, d). is_numeric_dtype d) (columns t))
                 \<and> map (\<lambda>row. nth_cell row 0) (rows r) = group_keys (col_cells t gi)"
    by (rule all_columns_result)
qed

theorem group_by_aggregate_single_column_witness:
  "wf_table \<lparr>columns = [(''g'', Object), (''x'', Int64), (''y'', Float64), (''n'', Object)],
       rows = [[Str ''a'', Num 2, Num 2, Str ''u''], [Str ''b'', Num 5, Null, Str ''v''],
               [Str ''a'', Num 10, Num 4, Str ''w'']]\<rparr>
   \<and> col_idx ''q'' (columns \<lparr>columns = [(''g'', Object), (''x'', Int64), (''y'', Float64), (''n'', Object)],
       rows = [[Str ''a'', Num 2, Num 2, Str ''u''], [Str ''b'', Num 5, Null, Str ''v''],
               [Str ''a'', Num 10, Num 4, Str ''w'']]\<rparr>) = None
   \<and> group_by_aggregate series_reduce named_agg \<lparr>columns = [(''g'', Object), (''x'', Int64), (''y'', Float64), (''n'', Object)],
       rows = [[Str ''a'', Num 2, Num 2, Str ''u''], [Str ''b'', Num 5, Null, Str ''v''],
               [Str ''a'', Num 10, Num 4, Str ''w'']]\<rparr> ''q'' ''sum'' (Some ''x'') = Inl (ColumnNotFound ''q'')
   \<and> col_idx ''g'' (columns \<lparr>columns = [(''g'', Object), (''x'', Int64), (''y'', Float64), (''n'', Object)],
       rows = [[Str ''a'', Num 2, Num 2, Str ''u''], [Str ''b'', Num 5, Null, Str ''v''],
               [Str ''a'', Num 10, Num 4, Str ''w'']]\<rparr>) = Some 0 \<and> ''x'' \<noteq> [] \<and> col_idx ''x'' (columns \<lparr>columns = [(''g'', Object), (''x'', Int64), (''y'', Float64), (''n'', Object)],
       rows = [[Str ''a'', Num 2, Num 2, Str ''u''], [Str ''b'', Num 5, Null, Str ''v''],
               [Str ''a'', Num 10, Num 4, Str ''w'']]\<rparr>) = Some 1
   \<and> single_fun ''median'' = None
   \<and> group_by_aggregate series_reduce named_agg \<lparr>columns = [(''g'', Object), (''x'', Int64), (''y'', Float64), (''n'', Object)],
       rows = [[Str ''a'', Num 2, Num 2, Str ''u''], [Str ''b'', Num 5, Null, Str ''v''],
               [Str ''a'', Num 10, Num 4, Str ''w'']]\<rparr> ''g'' ''median'' (Some ''x'') = Inl (GroupByError (UnknownFunction ''median''))
   \<and> single_fun ''Average'' = Some AggMean
   \<and> group_by_aggregate series_reduce named_agg \<lparr>columns = [(''g'', Object), (''x'', Int64), (''y'', Float64), (''n'', Object)],
       rows = [[Str ''a'', Num 2, Num 2, Str ''u''], [Str ''b'', Num 5, Null, Str ''v''],
               [Str ''a'', Num 10, Num 4, Str ''w'']]\<rparr> ''g'' ''Average'' (Some ''x'')
       = Inr \<lparr>columns = [(''g'', Object), (''x'', Float64)],
          rows = [[Str ''a'', Num 6], [Str ''b'', Num 5]]\<rparr>
   \<and> [(''g'', Object), (''x'', Float64)]
       = [(''g'', col_dtype \<lparr>columns = [(''g'', Object), (''x'', Int64), (''y'', Float64), (''n'', Object)],
       rows = [[Str ''a'', Num 2, Num 2, Str ''u''], [Str ''b'', Num 5, Null, Str ''v''],
               [Str ''a'', Num 10, Num 4, Str ''w'']]\<rparr> 0), (''x'', agg_dtype AggMean (col_dtype \<lparr>columns = [(''g'', Object), (''x'', Int64), (''y'', Float64), (''n'', Object)],
       rows = [[Str ''a'', Num 2, Num 2, Str ''u''], [Str ''b'', Num 5, Null, Str ''v''],
               [Str ''a'', Num 10, Num 4, Str ''w'']]\<rparr> 1))]
   \<and> [Str ''a'', Str ''b''] = group_keys (col_cells \<lparr>columns = [(''g'', Object), (''x'', Int64), (''y'', Float64), (''n'', Object)],
       rows = [[Str ''a'', Num 2, Num 2, Str ''u''], [Str ''b'', Num 5, Null, Str ''v''],
               [Str ''a'', Num 10, Num 4, Str ''w'']]\<rparr> 0)
   \<and> [Inr (Num 6), Inr (Num 5)]
       = map (\<lambda>k. series_reduce AggMean (col_dtype \<lparr>columns = [(''g'', Object), (''x'', Int64), (''y'', Float64), (''n'', Object)],
       rows = [[Str ''a'', Num 2, Num 2, Str ''u''], [Str ''b'', Num 5, Null, Str ''v''],
               [Str ''a'', Num 10, Num 4, Str ''w'']]\<rparr> 1) (map (\<lambda>row. nth_cell row 1) (filter (\<lambda>row. nth_cell row 0 = k) (rows \<lparr>columns = [(''g'', Object), (''x'', Int64), (''y'', Float64), (''n'', Object)],
       rows = [[Str ''a'', Num 2, Num 2, Str ''u''], [Str ''b'', Num 5, Null, Str ''v''],
               [Str ''a'', Num 10, Num 4, Str ''w'']]\<rparr>))))
             (group_keys (col_cells \<lparr>columns = [(''g'', Object), (''x'', Int64), (''y'', Float64), (''n'', Object)],
       rows = [[Str ''a'', Num 2, Num 2, Str ''u''], [Str ''b'', Num 5, Null, Str ''v''],
               [Str ''a'', Num 10, Num 4, Str ''w'']]\<rparr> 0))
   \<and> (''zzz'' = [] \<or> col_idx ''zzz'' (columns \<lparr>columns = [(''g'', Object), (''x'', Int64), (''y'', Float64), (''n'', Object)],
       rows = [[Str ''a'', Num 2, Num 2, Str ''u''], [Str ''b'', Num 5, Null, Str ''v''],
               [Str ''a'', Num 10, Num 4, Str ''w'']]\<rparr>) = None)
   \<and> group_by_aggregate series_reduce named_agg \<lparr>columns = [(''g'', Object), (''x'', Int64), (''y'', Float64), (''n'', Object)],
       rows = [[Str ''a'', Num 2, Num 2, Str ''u''], [Str ''b'', Num 5, Null, Str ''v''],
               [Str ''a'', Num 10, Num 4, Str ''w'']]\<rparr> ''g'' ''sum'' (Some ''zzz'') = group_by_aggregate series_reduce named_agg \<lparr>columns = [(''g'', Object), (''x'', Int64), (''y'', Float64), (''n'', Object)],
       rows = [[Str ''a'', Num 2, Num 2, Str ''u''], [Str ''b'', Num 5, Null, Str ''v''],
               [Str ''a'', Num 10, Num 4, Str ''w'']]\<rparr> ''g'' ''sum'' None
   \<and> group_by_aggregate series_reduce named_agg \<lparr>columns = [(''g'', Object), (''x'', Int64), (''y'', Float64), (''n'', Object)],
       rows = [[Str ''a'', Num 2, Num 2, Str ''u''], [Str ''b'', Num 5, Null, Str ''v''],
               [Str ''a'', Num 10, Num 4, Str ''w'']]\<rparr> ''g'' ''sum'' None
       = Inr \<lparr>columns = [(''g'', Object), (''x'', Int64), (''y'', Float64)],
          rows = [[Str ''a'', Num 12, Num 6], [Str ''b'', Num 5, Num 0]]\<rparr>
   \<and> [''g'', ''x'', ''y'']
       = ''g'' # map fst (filter (\<lambda>(n, d). is_numeric_dtype d) (columns \<lparr>columns = [(''g'', Object), (''x'', Int64), (''y'', Float64), (''n'', Object)],
       rows = [[Str ''a'', Num 2, Num 2, Str ''u''], [Str ''b'', Num 5, Null, Str ''v''],
               [Str ''a'', Num 10, Num 4, Str ''w'']]\<rparr>))
   \<and> group_by_aggregate series_reduce named_agg \<lparr>columns = [(''g'', Object), (''x'', Int64), (''y'', Float64), (''n'', Object)],
       rows = [[Str ''a'', Num 2, Num 2, Str ''u''], [Str ''b'', Num 5, Null, Str ''v''],
               [Str ''a'', Num 10, Num 4, Str ''w'']]\<rparr> ''g'' ''COUNT'' (Some ''y'')
       = Inr \<lparr>columns = [(''g'', Object), (''y'', Int64)],
              rows = [[Str ''a'', Num 2], [Str ''b'', Num 0]]\<rparr>
   \<and> group_by_aggregate series_reduce named_agg \<lparr>columns = [(''g'', Object), (''x'', Int64), (''y'', Float64), (''n'', Object)],
       rows = [[Str ''a'', Num 2, Num 2, Str ''u''], [Str ''b'', Num 5, Null, Str ''v''],
               [Str ''a'', Num 10, Num 4, Str ''w'']]\<rparr> ''g'' ''max'' (Some ''x'')
       = Inr \<lparr>columns = [(''g'', Object), (''x'', Int64)],
              rows = [[Str ''a'', Num 10], [Str ''b'', Num 5]]\<rparr>
   \<and> group_by_aggregate series_reduce named_agg \<lparr>columns = [(''g'', Object), (''x'', Int64), (''y'', Float64), (''n'', Object)],
       rows = [[Str ''a'', Num 2, Num 2, Str ''u''], [Str ''b'', Num 5, Null, Str ''v''],
               [Str ''a'', Num 10, Num 4, Str ''w'']]\<rparr> ''g'' ''min'' (Some ''y'')
       = Inr \<lparr>columns = [(''g'', Object), (''y'', Float64)],
              rows = [[Str ''a'', Num 2], [Str ''b'', Null]]\<rparr>
   \<and> group_by_aggregate series_reduce named_agg \<lparr>columns = [(''g'', Object), (''x'', Int64), (''y'', Float64), (''n'', Object)],
       rows = [[Str ''a'', Num 2, Num 2, Str ''u''], [Str ''b'', Num 5, Null, Str ''v''],
               [Str ''a'', Num 10, Num 4, Str ''w'']]\<rparr> ''g'' ''mean'' (Some ''n'') = Inl (GroupByError TypeError)"
proof -
  let ?t = "\<lparr>columns = [(''g'', Object), (''x'', Int64), (''y'', Float64), (''n'', Object)],
       rows = [[Str ''a'', Num 2, Num 2, Str ''u''], [Str ''b'', Num 5, Null, Str ''v''],
               [Str ''a'', Num 10, Num 4, Str ''w'']]\<rparr>"
  let ?avg = "\<lparr>columns = [(''g'', Object), (''x'', Float64)],
          rows = [[Str ''a'', Num 6], [Str ''b'', Num 5]]\<rparr>"
  let ?all = "\<lparr>columns = [(''g'', Object), (''x'', Int64), (''y'', Float64)],
          rows = [[Str ''a'', Num 12, Num 6], [Str ''b'', Num 5, Num 0]]\<rparr>"
  have h: "wf_table ?t"
    by code_simp
  have h1: "col_idx ''q'' (columns ?t) = None"
    by code_simp
  have h2: "col_idx ''g'' (columns ?t) = Some 0 \<and> ''x'' \<noteq> [] \<and> col_idx ''x'' (columns ?t) = Some 1"
    by code_simp
  have h3: "single_fun ''median'' = None"
    by code_simp
  have h4: "single_fun ''Average'' = Some AggMean"
    by code_simp
  have h5: "''zzz'' = [] \<or> col_idx ''zzz'' (columns ?t) = None"
    by code_simp
  have e1: "group_by_aggregate series_reduce named_agg ?t ''g'' ''Average'' (Some ''x'') = Inr ?avg"
    by code_simp
  have e2: "group_by_aggregate series_reduce named_agg ?t ''g'' ''sum'' None = Inr ?all"
    by code_simp
  have r0: "columns ?avg = [(''g'', Object), (''x'', Float64)]"
    by simp
  have r1: "map (\<lambda>row. nth_cell row 0) (rows ?avg) = [Str ''a'', Str ''b'']"
    by (simp add: nth_cell_def)
  have r2: "map (\<lambda>row. Inr (nth_cell row 1)) (rows ?avg) = [Inr (Num 6), Inr (Num 5)]"
    by (simp add: nth_cell_def)
  have r3: "col_names ?all = [''g'', ''x'', ''y'']"
    by (simp add: col_names_def)
  note inst = group_by_aggregate_single_column [OF h, where reduce = series_reduce
      and agg_by_name = named_agg]
  from inst [where g = "''q''" and fn = "''sum''" and agg_column = "Some ''x''" and a = "''x''"] h1
  have a: "group_by_aggregate series_reduce named_agg ?t ''q'' ''sum'' (Some ''x'') = Inl (ColumnNotFound ''q'')"
    by blast
  from inst [where g = "''g''" and fn = "''median''" and a = "''x''"] h2
  have "case single_fun ''median'' of
          None \<Rightarrow> group_by_aggregate series_reduce named_agg ?t ''g'' ''median'' (Some ''x'')
                   = Inl (GroupByError (UnknownFunction ''median''))
        | Some f \<Rightarrow> True"
    by (simp only: h3 option.case) blast
  then have b: "group_by_aggregate series_reduce named_agg ?t ''g'' ''median'' (Some ''x'')
                  = Inl (GroupByError (UnknownFunction ''median''))"
    by (simp only: h3 option.case)
  from inst [where g = "''g''" and fn = "''Average''" and a = "''x''"] h2
  have "columns ?avg = [(''g'', col_dtype ?t 0), (''x'', agg_dtype AggMean (col_dtype ?t 1))]
        \<and> map (\<lambda>row. nth_cell row 0) (rows ?avg) = group_keys (col_cells ?t 0)
        \<and> map (\<lambda>row. Inr (nth_cell row 1)) (rows ?avg)
            = map (\<lambda>k. series_reduce AggMean (col_dtype ?t 1) (map (\<lambda>row. nth_cell row 1) (filter (\<lambda>row. nth_cell row 0 = k) (rows ?t))))
                  (group_keys (col_cells ?t 0))"
    by (simp only: h4 e1 option.case sum.case) blast
  then have c: "[(''g'', Object), (''x'', Float64)]
                  = [(''g'', col_dtype ?t 0), (''x'', agg_dtype AggMean (col_dtype ?t 1))]
        \<and> [Str ''a'', Str ''b''] = group_keys (col_cells ?t 0)
        \<and> [Inr (Num 6), Inr (Num 5)]
            = map (\<lambda>k. series_reduce AggMean (col_dtype ?t 1) (map (\<lambda>row. nth_cell row 1) (filter (\<lambda>row. nth_cell row 0 = k) (rows ?t))))
                  (group_keys (col_cells ?t 0))"
    by (simp only: r0 r1 r2)
  from inst [where g = "''g''" and fn = "''sum''" and a = "''zzz''"] h5
  have d: "group_by_aggregate series_reduce named_agg ?t ''g'' ''sum'' (Some ''zzz'') = group_by_aggregate series_reduce named_agg ?t ''g'' ''sum'' None"
    by blast
  from inst [where g = "''g''" and fn = "''sum''" and a = "''zzz''"] h2
  have "col_names ?all
        = ''g'' # map fst (filter (\<lambda>(n, d). is_numeric_dtype d) (columns ?t))"
    by (simp only: e2 sum.case)
  then have f: "[''g'', ''x'', ''y'']
        = ''g'' # map fst (filter (\<lambda>(n, d). is_numeric_dtype d) (columns ?t))"
    by (simp only: r3)
  have x1: "group_by_aggregate series_reduce named_agg ?t ''g'' ''COUNT'' (Some ''y'')
       = Inr \<lparr>columns = [(''g'', Object), (''y'', Int64)],
              rows = [[Str ''a'', Num 2], [Str ''b'', Num 0]]\<rparr>"
    by code_simp
  have x2: "group_by_aggregate series_reduce named_agg ?t ''g'' ''max'' (Some ''x'')
       = Inr \<lparr>columns = [(''g'', Object), (''x'', Int64)],
              rows = [[Str ''a'', Num 10], [Str ''b'', Num 5]]\<rparr>"
    by code_simp
  have x3: "group_by_aggregate series_reduce named_agg ?t ''g'' ''min'' (Some ''y'')
       = Inr \<lparr>columns = [(''g'', Object), (''y'', Float64)],
              rows = [[Str ''a'', Num 2], [Str ''b'', Null]]\<rparr>"
    by code_simp
  have x4: "group_by_aggregate series_reduce named_agg ?t ''g'' ''mean'' (Some ''n'') = Inl (GroupByError TypeError)"
    by code_simp
  from h h1 a h2 h3 b h4 e1 c h5 d e2 f x1 x2 x3 x4 show ?thesis
    by (intro conjI) blast+
qed

end
